theory Spec2Isabelle
  imports Complex_Main "HOL-Library.Word"
begin

unbundle bit_operations_syntax

section \<open>Sample types and buffers\<close>

text \<open>
  The driver handles three GDAL sample types (\<^verbatim>\<open>CreateCopy\<close> and \<^verbatim>\<open>Open\<close> reject
  every other one); \<^verbatim>\<open>GDT_Unknown\<close> is the value of \<^verbatim>\<open>eDT\<close> before a type is found.
  \<^verbatim>\<open>GDALGetDataTypeSize\<close> and \<^verbatim>\<open>GDALGetDataTypeSizeBytes\<close> are GDAL core functions that
  \<^verbatim>\<open>jpegxl.cpp\<close> only calls; their values are the widths of the types in bits and bytes.
\<close>

datatype GDALDataType = GDT_Unknown | GDT_Byte | GDT_UInt16 | GDT_Float32

fun GDALGetDataTypeSize :: "GDALDataType \<Rightarrow> nat" where
  "GDALGetDataTypeSize GDT_Unknown = 0"
| "GDALGetDataTypeSize GDT_Byte = 8"
| "GDALGetDataTypeSize GDT_UInt16 = 16"
| "GDALGetDataTypeSize GDT_Float32 = 32"

definition GDALGetDataTypeSizeBytes :: "GDALDataType \<Rightarrow> nat" where
  "GDALGetDataTypeSizeBytes dt = GDALGetDataTypeSize dt div 8"

text \<open>
  A pixel buffer is a \<^verbatim>\<open>void *\<close> that the code reads as \<^verbatim>\<open>GByte *\<close>, \<^verbatim>\<open>uint16_t *\<close>
  or \<^verbatim>\<open>float *\<close> according to the data type of the dataset; the constructor carries
  that type.
\<close>

datatype pixel_buffer =
    ByteSamples "8 word list"
  | UInt16Samples "16 word list"
  | Float32Samples "32 word list"

fun buffer_type :: "pixel_buffer \<Rightarrow> GDALDataType" where
  "buffer_type (ByteSamples _) = GDT_Byte"
| "buffer_type (UInt16Samples _) = GDT_UInt16"
| "buffer_type (Float32Samples _) = GDT_Float32"

fun buffer_length :: "pixel_buffer \<Rightarrow> nat" where
  "buffer_length (ByteSamples xs) = length xs"
| "buffer_length (UInt16Samples xs) = length xs"
| "buffer_length (Float32Samples xs) = length xs"

text \<open>
  The loop \<^verbatim>\<open>for (size_t i = 0; i < nSamples; ++i) panData[i] = f(panData[i]);\<close>
  that both \<^verbatim>\<open>Rescale\<close> lambdas run over a buffer.
\<close>

definition for_each_sample :: "nat \<Rightarrow> ('a \<Rightarrow> 'a) \<Rightarrow> 'a list \<Rightarrow> 'a list" where
  "for_each_sample nSamples f panData =
     fold (\<lambda>i buf. buf[i := f (buf ! i)]) [0..<nSamples] panData"

section \<open>Bit-depth rescaling\<close>

text \<open>\<^verbatim>\<open>const int nMaxVal = (1 << nBits) - 1;\<close> (both lambdas).\<close>

definition nMaxVal :: "nat \<Rightarrow> int" where
  "nMaxVal nBits = 2 ^ nBits - 1"

subsection \<open>Decoding: \<^verbatim>\<open>Rescale\<close> in \<^verbatim>\<open>GetDecodedImage(void *, size_t)\<close>\<close>

text \<open>
  One sample of the \<^verbatim>\<open>GDT_Byte\<close> branch,
  \<^verbatim>\<open>static_cast<GByte>((panData[i] * nMaxVal + nHalfMaxWidth) / 255)\<close> with
  \<^verbatim>\<open>nHalfMaxWidth = 127\<close>, and of the \<^verbatim>\<open>GDT_UInt16\<close> branch, with \<^verbatim>\<open>32767\<close> and
  \<^verbatim>\<open>65535\<close>.  The arithmetic is done in \<^verbatim>\<open>int\<close>; all operands are non-negative, so
  C's truncating division is \<open>div\<close>.
\<close>

definition decode_sample_Byte :: "nat \<Rightarrow> 8 word \<Rightarrow> 8 word" where
  "decode_sample_Byte m_nBits s = word_of_int ((uint s * nMaxVal m_nBits + 127) div 255)"

definition decode_sample_UInt16 :: "nat \<Rightarrow> 16 word \<Rightarrow> 16 word" where
  "decode_sample_UInt16 m_nBits s =
     word_of_int ((uint s * nMaxVal m_nBits + 32767) div 65535)"

text \<open>
  The lambda itself: \<^verbatim>\<open>nSamples = nRasterXSize * nRasterYSize * nChannels\<close>; a
  \<^verbatim>\<open>GDT_Float32\<close> buffer is left as it is.
\<close>

fun decode_Rescale :: "nat \<Rightarrow> nat \<Rightarrow> nat \<Rightarrow> pixel_buffer \<Rightarrow> nat \<Rightarrow> pixel_buffer" where
  "decode_Rescale nRasterXSize nRasterYSize m_nBits (ByteSamples panData) nChannels =
     ByteSamples (for_each_sample (nRasterXSize * nRasterYSize * nChannels)
       (decode_sample_Byte m_nBits) panData)"
| "decode_Rescale nRasterXSize nRasterYSize m_nBits (UInt16Samples panData) nChannels =
     UInt16Samples (for_each_sample (nRasterXSize * nRasterYSize * nChannels)
       (decode_sample_UInt16 m_nBits) panData)"
| "decode_Rescale nRasterXSize nRasterYSize m_nBits (Float32Samples panData) nChannels =
     Float32Samples panData"

text \<open>
  The tail of \<^verbatim>\<open>GetDecodedImage(void *, size_t)\<close>: when
  \<^verbatim>\<open>m_nBits < GDALGetDataTypeSize(eDT)\<close>, the primary buffer is rescaled with
  \<^verbatim>\<open>nBands - m_nNonAlphaExtraChannels\<close> channels and every extra-channel buffer with one.
  The record groups the buffers the function works on: \<open>output_data\<close> is the buffer
  \<^verbatim>\<open>pabyOutputData\<close> the caller passes, \<open>extra_channels\<close> are the buffers of
  \<^verbatim>\<open>m_abyExtraChannels\<close>.
\<close>

record decoded_buffers =
  output_data :: pixel_buffer
  extra_channels :: "pixel_buffer list"

definition GetDecodedImage_rescale ::
  "nat \<Rightarrow> nat \<Rightarrow> nat \<Rightarrow> nat \<Rightarrow> nat \<Rightarrow> GDALDataType \<Rightarrow> decoded_buffers \<Rightarrow> decoded_buffers" where
  "GetDecodedImage_rescale nRasterXSize nRasterYSize nBands m_nNonAlphaExtraChannels m_nBits eDT b =
     (if m_nBits < GDALGetDataTypeSize eDT then
        \<lparr> output_data =
            decode_Rescale nRasterXSize nRasterYSize m_nBits (output_data b)
              (nBands - m_nNonAlphaExtraChannels),
          extra_channels =
            map (\<lambda>ch. decode_Rescale nRasterXSize nRasterYSize m_nBits ch 1)
              (extra_channels b) \<rparr>
      else b)"

subsection \<open>Encoding: \<^verbatim>\<open>Rescale\<close> in \<^verbatim>\<open>CreateCopy\<close>\<close>

text \<open>
  One sample:
  \<^verbatim>\<open>static_cast<GByte>((std::min(static_cast<int>(panData[i]), nMaxVal) * 255 + nMavValHalf) / nMaxVal)\<close>
  with \<^verbatim>\<open>nMavValHalf = nMaxVal / 2\<close>, and the same with \<^verbatim>\<open>65535\<close> for \<^verbatim>\<open>uint16_t\<close>.
\<close>

definition encode_sample_Byte :: "nat \<Rightarrow> 8 word \<Rightarrow> 8 word" where
  "encode_sample_Byte nBits s =
     word_of_int ((min (uint s) (nMaxVal nBits) * 255 + nMaxVal nBits div 2) div nMaxVal nBits)"

definition encode_sample_UInt16 :: "nat \<Rightarrow> 16 word \<Rightarrow> 16 word" where
  "encode_sample_UInt16 nBits s =
     word_of_int ((min (uint s) (nMaxVal nBits) * 65535 + nMaxVal nBits div 2) div nMaxVal nBits)"

text \<open>
  The lambda rescales only when \<^verbatim>\<open>(eDT == GDT_Byte && nBits < 8) || (eDT == GDT_UInt16 && nBits < 16)\<close>.
  With \<^verbatim>\<open>nBits = 0\<close> the C code divides by zero; the model returns \<open>None\<close> there.
\<close>

fun encode_Rescale :: "nat \<Rightarrow> nat \<Rightarrow> nat \<Rightarrow> pixel_buffer \<Rightarrow> nat \<Rightarrow> pixel_buffer option" where
  "encode_Rescale xsize ysize nBits (ByteSamples panData) nChannels =
     (if nBits < 8 then
        (if nMaxVal nBits = 0 \<and> 0 < xsize * ysize * nChannels then None
         else Some (ByteSamples (for_each_sample (xsize * ysize * nChannels)
                (encode_sample_Byte nBits) panData)))
      else Some (ByteSamples panData))"
| "encode_Rescale xsize ysize nBits (UInt16Samples panData) nChannels =
     (if nBits < 16 then
        (if nMaxVal nBits = 0 \<and> 0 < xsize * ysize * nChannels then None
         else Some (UInt16Samples (for_each_sample (xsize * ysize * nChannels)
                (encode_sample_UInt16 nBits) panData)))
      else Some (UInt16Samples panData))"
| "encode_Rescale xsize ysize nBits (Float32Samples panData) nChannels =
     Some (Float32Samples panData)"

subsection \<open>The mapping the specification describes\<close>

text \<open>
  The specification's \<^emph>\<open>expand\<close>: a sample \<open>s\<close> of declared depth \<open>b\<close> goes to
  \<open>round (s * (2^target - 1) / (2^b - 1))\<close>, rounding half up.
\<close>

definition spec_expand :: "nat \<Rightarrow> nat \<Rightarrow> int \<Rightarrow> int" where
  "spec_expand target b s = (2 * s * (2 ^ target - 1) + (2 ^ b - 1)) div (2 * (2 ^ b - 1))"

text \<open>The unsigned values of the samples of a buffer.\<close>

fun sample_values :: "pixel_buffer \<Rightarrow> int list" where
  "sample_values (ByteSamples xs) = map uint xs"
| "sample_values (UInt16Samples xs) = map uint xs"
| "sample_values (Float32Samples xs) = map uint xs"

text \<open>
  The largest value of the container type, \<open>2^8 - 1\<close> or \<open>2^16 - 1\<close>, and the mapping
  that the decoding lambda computes on sample values: \<open>s\<close> goes to
  \<open>(s * (2^b - 1) + half) div max\<close>, where \<open>half = max div 2\<close> is \<^verbatim>\<open>nHalfMaxWidth\<close>.
\<close>

definition container_max :: "GDALDataType \<Rightarrow> int" where
  "container_max eDT = 2 ^ GDALGetDataTypeSize eDT - 1"

definition compress_sample :: "GDALDataType \<Rightarrow> nat \<Rightarrow> int \<Rightarrow> int" where
  "compress_sample eDT b s =
     (s * (2 ^ b - 1) + container_max eDT div 2) div container_max eDT"


section \<open>Compression settings of \<^verbatim>\<open>CreateCopy\<close>\<close>

subsection \<open>Floating-point values\<close>

text \<open>
  A finite \<^verbatim>\<open>float\<close> or \<^verbatim>\<open>double\<close> is modelled by the rational number it denotes.
  Conversions and arithmetic round to the nearest value of the format, ties to even (the
  default mode of IEEE 754), with 24 significant bits for \<^verbatim>\<open>float\<close> and 53 for
  \<^verbatim>\<open>double\<close>.  Infinities, NaN and subnormal numbers are outside the model.
\<close>

definition round_half_even :: "rat \<Rightarrow> int" where
  "round_half_even x =
     (let f = \<lfloor>x\<rfloor>; d = x - of_int f
      in if d < 1 / 2 then f else if 1 / 2 < d then f + 1 else if even f then f else f + 1)"

text \<open>The number of binary digits of a positive integer.\<close>

function bit_length :: "int \<Rightarrow> int" where
  "bit_length n = (if n \<le> 0 then 0 else 1 + bit_length (n div 2))"
  by pat_completeness auto
termination
  by (relation "measure nat") auto

declare bit_length.simps [simp del]

definition pow2 :: "int \<Rightarrow> rat" where
  "pow2 e = (if 0 \<le> e then 2 ^ nat e else 1 / 2 ^ nat (- e))"

text \<open>The exponent \<open>e\<close> with \<open>2^e \<le> \<bar>x\<bar> < 2^(e+1)\<close>, for \<open>x \<noteq> 0\<close>.\<close>

definition binary_exponent :: "rat \<Rightarrow> int" where
  "binary_exponent x =
     (let (a, b) = quotient_of \<bar>x\<bar>;
          d = bit_length a - bit_length b
      in if pow2 d \<le> \<bar>x\<bar> then d else d - 1)"

definition round_to_precision :: "int \<Rightarrow> rat \<Rightarrow> rat" where
  "round_to_precision p x =
     (if x = 0 then 0
      else let ulp = pow2 (binary_exponent x - p + 1)
           in of_int (round_half_even (x / ulp)) * ulp)"

definition to_float :: "rat \<Rightarrow> rat" where
  "to_float = round_to_precision 24"

definition to_double :: "rat \<Rightarrow> rat" where
  "to_double = round_to_precision 53"

text \<open>Arithmetic on \<^verbatim>\<open>double\<close> operands: the exact result, rounded.\<close>

definition dadd :: "rat \<Rightarrow> rat \<Rightarrow> rat" where "dadd x y = to_double (x + y)"
definition dsub :: "rat \<Rightarrow> rat \<Rightarrow> rat" where "dsub x y = to_double (x - y)"
definition dmul :: "rat \<Rightarrow> rat \<Rightarrow> rat" where "dmul x y = to_double (x * y)"
definition ddiv :: "rat \<Rightarrow> rat \<Rightarrow> rat" where "ddiv x y = to_double (x / y)"

subsection \<open>The creation options\<close>

text \<open>
  \<^verbatim>\<open>CSLFetchNameValue(papszOptions, ...)\<close> for the three options that select the
  compression: \<open>None\<close> when the option is absent (\<^verbatim>\<open>nullptr\<close>).  \<open>LOSSLESS\<close> holds
  \<^verbatim>\<open>CPLTestBool\<close> of the value, \<open>DISTANCE\<close> and \<open>QUALITY\<close> hold \<^verbatim>\<open>CPLAtof\<close> of the
  value, a \<^verbatim>\<open>double\<close>.
\<close>

record creation_options =
  LOSSLESS :: "bool option"
  DISTANCE :: "rat option"
  QUALITY :: "rat option"

datatype CreateCopy_error =
    DISTANCE_and_LOSSLESS_exclusive
  | QUALITY_and_LOSSLESS_exclusive
  | QUALITY_and_DISTANCE_exclusive

text \<open>
  What \<^verbatim>\<open>CreateCopy\<close> configures on the encoder: \<^verbatim>\<open>JxlEncoderOptionsSetLossless(opts, TRUE)\<close>,
  or \<^verbatim>\<open>JxlEncoderSetFrameDistance(opts, fDistance)\<close> with a \<^verbatim>\<open>float\<close>.
\<close>

datatype encoder_setting = SetLossless | SetFrameDistance rat

definition bLossless :: "creation_options \<Rightarrow> bool" where
  "bLossless opts \<longleftrightarrow>
     (LOSSLESS opts = None \<and> DISTANCE opts = None \<and> QUALITY opts = None) \<or>
     LOSSLESS opts = Some True"

text \<open>
  The conversion of \<^verbatim>\<open>QUALITY\<close> ("Formulas taken from cjxl.cc").  \<^verbatim>\<open>pow\<close> is the
  function of the C library, a parameter of the model; the constants \<^verbatim>\<open>5.0f\<close> and
  \<^verbatim>\<open>6.25f\<close> are exact, \<^verbatim>\<open>0.1\<close>, \<^verbatim>\<open>0.09\<close> and \<^verbatim>\<open>6.4\<close> are rounded to
  \<^verbatim>\<open>double\<close>.
\<close>

definition quality_to_distance :: "(rat \<Rightarrow> rat \<Rightarrow> rat) \<Rightarrow> rat \<Rightarrow> rat" where
  "quality_to_distance pow quality =
     (if 100 \<le> quality then 0
      else if 30 \<le> quality then
        to_float (dadd (to_double (1 / 10)) (dmul (dsub 100 quality) (to_double (9 / 100))))
      else
        to_float (dadd (to_double (64 / 10))
                    (ddiv (pow (5 / 2) (ddiv (dsub 30 quality) 5)) (625 / 100))))"

text \<open>
  The three checks for mutually exclusive options, then the branch on \<^verbatim>\<open>bLossless\<close>.  In
  the lossy branch \<^verbatim>\<open>fDistance\<close> starts as the \<^verbatim>\<open>DISTANCE\<close> option converted to
  \<^verbatim>\<open>float\<close>, or \<^verbatim>\<open>1.0f\<close>; a \<^verbatim>\<open>QUALITY\<close> option replaces it; and
  \<^verbatim>\<open>if (fDistance >= 0.0f && fDistance < 0.1f) fDistance = 0.1f;\<close> is applied last.
  The result is the setting that is handed to the encoder (whose answer is not modelled).
\<close>

definition CreateCopy_settings ::
  "(rat \<Rightarrow> rat \<Rightarrow> rat) \<Rightarrow> creation_options \<Rightarrow> CreateCopy_error + encoder_setting" where
  "CreateCopy_settings pow opts =
     (if (LOSSLESS opts \<noteq> None \<and> bLossless opts) \<and> DISTANCE opts \<noteq> None then
        Inl DISTANCE_and_LOSSLESS_exclusive
      else if (LOSSLESS opts \<noteq> None \<and> bLossless opts) \<and> QUALITY opts \<noteq> None then
        Inl QUALITY_and_LOSSLESS_exclusive
      else if DISTANCE opts \<noteq> None \<and> QUALITY opts \<noteq> None then
        Inl QUALITY_and_DISTANCE_exclusive
      else if bLossless opts then Inr SetLossless
      else
        let fDistance = (case DISTANCE opts of Some d \<Rightarrow> to_float d | None \<Rightarrow> 1);
            fDistance = (case QUALITY opts of
                           Some quality \<Rightarrow> quality_to_distance pow quality
                         | None \<Rightarrow> fDistance);
            fDistance = (if 0 \<le> fDistance \<and> fDistance < to_float (1 / 10)
                         then to_float (1 / 10) else fDistance)
        in Inr (SetFrameDistance fDistance))"


section \<open>Marker segments of a JPEG bitstream\<close>

type_synonym GByte = "8 word"

definition INT_MAX :: nat where
  "INT_MAX = 2147483647"

text \<open>
  \<^verbatim>\<open>memcmp(bytes.data() + pos, sig, sizeof(sig)) == 0\<close>; every call in the source is guarded
  by \<^verbatim>\<open>pos + sizeof(sig) <= bytes.size()\<close>.
\<close>

definition memcmp_eq :: "GByte list \<Rightarrow> nat \<Rightarrow> GByte list \<Rightarrow> bool" where
  "memcmp_eq bytes pos sig \<longleftrightarrow> take (length sig) (drop pos bytes) = sig"

text \<open>\<^verbatim>\<open>{'J', 'F', 'I', 'F', '\0'}\<close> and \<^verbatim>\<open>{'E', 'x', 'i', 'f', '\0', '\0'}\<close>.\<close>

definition JFIF_SIGNATURE :: "GByte list" where
  "JFIF_SIGNATURE = [0x4A, 0x46, 0x49, 0x46, 0x00]"

definition EXIF_SIGNATURE :: "GByte list" where
  "EXIF_SIGNATURE = [0x45, 0x78, 0x69, 0x66, 0x00, 0x00]"

text \<open>
  \<^verbatim>\<open>"http://ns.adobe.com/xap/1.0/"\<close> as a \<^verbatim>\<open>char\<close> array: \<^verbatim>\<open>sizeof\<close> counts the
  terminating zero, 29 bytes in all.
\<close>

definition APP1_XMP_SIGNATURE :: "GByte list" where
  "APP1_XMP_SIGNATURE =
     [0x68, 0x74, 0x74, 0x70, 0x3A, 0x2F, 0x2F, 0x6E, 0x73, 0x2E, 0x61, 0x64, 0x6F, 0x62,
      0x65, 0x2E, 0x63, 0x6F, 0x6D, 0x2F, 0x78, 0x61, 0x70, 0x2F, 0x31, 0x2E, 0x30, 0x2F,
      0x00]"

subsection \<open>Re-inserting EXIF and XMP in \<^verbatim>\<open>GetMetadataItem\<close>\<close>

text \<open>
  The scanning loop, which is written twice in the source, once with \<^verbatim>\<open>EXIF_SIGNATURE\<close>
  and once with \<^verbatim>\<open>APP1_XMP_SIGNATURE\<close>.  It returns \<^verbatim>\<open>nInsertPos\<close> and the flag
  \<^verbatim>\<open>bEXIFFound\<close> (or \<^verbatim>\<open>bXMPFound\<close>).  Each round advances \<^verbatim>\<open>nChunkLoc\<close> by
  \<^verbatim>\<open>2 + nChunkLength\<close>.
\<close>

function scan_markers :: "GByte list \<Rightarrow> GByte list \<Rightarrow> nat \<Rightarrow> nat \<Rightarrow> nat \<times> bool" where
  "scan_markers sig jpeg_bytes nChunkLoc nInsertPos =
     (if nChunkLoc + 4 \<le> length jpeg_bytes then
        if jpeg_bytes ! nChunkLoc \<noteq> 0xFF \<or> jpeg_bytes ! (nChunkLoc + 1) = 0xDA then
          (nInsertPos, False)
        else
          let nChunkLength =
                unat (jpeg_bytes ! (nChunkLoc + 2)) * 256 + unat (jpeg_bytes ! (nChunkLoc + 3))
          in if jpeg_bytes ! nChunkLoc = 0xFF \<and> jpeg_bytes ! (nChunkLoc + 1) = 0xE0 \<and>
                nChunkLoc + 4 + length JFIF_SIGNATURE \<le> length jpeg_bytes \<and>
                memcmp_eq jpeg_bytes (nChunkLoc + 4) JFIF_SIGNATURE then
               scan_markers sig jpeg_bytes (nChunkLoc + (2 + nChunkLength))
                 (nChunkLoc + 2 + nChunkLength)
             else if jpeg_bytes ! nChunkLoc = 0xFF \<and> jpeg_bytes ! (nChunkLoc + 1) = 0xE1 \<and>
                nChunkLoc + 4 + length sig \<le> length jpeg_bytes \<and>
                memcmp_eq jpeg_bytes (nChunkLoc + 4) sig then
               (nInsertPos, True)
             else scan_markers sig jpeg_bytes (nChunkLoc + (2 + nChunkLength)) nInsertPos
      else (nInsertPos, False))"
  by pat_completeness auto
termination
  by (relation "measure (\<lambda>(sig, jpeg_bytes, nChunkLoc, nInsertPos). length jpeg_bytes - nChunkLoc)")
    auto

declare scan_markers.simps [simp del]

text \<open>
  The splice that follows the loop: when the marker was not found and an insertion point
  was, the new bitstream is the bytes before \<^verbatim>\<open>nInsertPos\<close>, \<^verbatim>\<open>FF E1\<close>, the marker size
  as two bytes (high byte first), the signature, the payload, and the bytes from
  \<^verbatim>\<open>nInsertPos\<close> on.  An insertion point beyond the end of the buffer (a JFIF segment
  whose length field overruns the data) makes the source read out of bounds; the model
  returns \<open>None\<close> there.
\<close>

definition insert_marker :: "GByte list \<Rightarrow> GByte list \<Rightarrow> GByte list \<Rightarrow> GByte list option" where
  "insert_marker sig payload jpeg_bytes =
     (let nMarkerSize = 2 + length sig + length payload;
          (nInsertPos, bFound) = scan_markers sig jpeg_bytes 2 0
      in if \<not> bFound \<and> 0 < nInsertPos then
           if nInsertPos \<le> length jpeg_bytes then
             Some (take nInsertPos jpeg_bytes @
                   [0xFF, 0xE1, word_of_nat (nMarkerSize div 256), word_of_nat (nMarkerSize mod 256)] @
                   sig @ payload @ drop nInsertPos jpeg_bytes)
           else None
         else Some jpeg_bytes)"

text \<open>
  The two names under which the reconstructed bitstream can be requested; \<^verbatim>\<open>EQUAL\<close>
  compares without regard to case.
\<close>

datatype codestream_item = CODESTREAM | CODESTREAM_WITHOUT_EXIF

text \<open>
  The post-processing of the reconstructed bytes, from
  \<^verbatim>\<open>if (!jpeg_bytes.empty() && jpeg_bytes.size() < INT_MAX)\<close> to the value handed to
  \<^verbatim>\<open>CPLBase64Encode\<close>.  \<open>None\<close> stands for the \<^verbatim>\<open>nullptr\<close> that is returned when the
  condition fails (and for the out-of-bounds splice above).
\<close>

definition reinsert_markers ::
  "codestream_item \<Rightarrow> GByte list \<Rightarrow> GByte list \<Rightarrow> GByte list \<Rightarrow> GByte list option" where
  "reinsert_markers pszName m_abyEXIFBox m_osXMP jpeg_bytes =
     (if jpeg_bytes \<noteq> [] \<and> length jpeg_bytes < INT_MAX then
        let nEXIFMarkerSize = 2 + length EXIF_SIGNATURE + length m_abyEXIFBox;
            nXMPMarkerSize = 2 + length APP1_XMP_SIGNATURE + length m_osXMP
        in case (if pszName \<noteq> CODESTREAM_WITHOUT_EXIF \<and> nEXIFMarkerSize \<le> 65535
                 then insert_marker EXIF_SIGNATURE m_abyEXIFBox jpeg_bytes
                 else Some jpeg_bytes) of
             None \<Rightarrow> None
           | Some jpeg_bytes \<Rightarrow>
               if m_osXMP \<noteq> [] \<and> nXMPMarkerSize \<le> 65535
               then insert_marker APP1_XMP_SIGNATURE m_osXMP jpeg_bytes
               else Some jpeg_bytes
      else None)"


subsection \<open>Embedding a JPEG source in \<^verbatim>\<open>CreateCopy\<close>\<close>

text \<open>
  \<^verbatim>\<open>memcpy(&nImageSize, abyJPEG.data() + nFileSize - 4, 4); CPL_LSBPTR32(&nImageSize);\<close>
  reads four bytes as a little-endian 32-bit number.
\<close>

definition le32 :: "GByte list \<Rightarrow> nat" where
  "le32 bs = unat (bs ! 0) + 256 * unat (bs ! 1) + 65536 * unat (bs ! 2) + 16777216 * unat (bs ! 3)"

text \<open>"Detect zlib compress mask band at end of file and remove it if found".\<close>

definition remove_mask :: "GByte list \<Rightarrow> GByte list" where
  "remove_mask abyJPEG =
     (let nFileSize = length abyJPEG
      in if 4 < nFileSize then
           let nImageSize = le32 (drop (nFileSize - 4) abyJPEG)
           in if 2 < nImageSize \<and> nFileSize div 2 \<le> nImageSize \<and> nImageSize \<le> nFileSize - 4 \<and>
                 abyJPEG ! (nImageSize - 2) = 0xFF \<and> abyJPEG ! (nImageSize - 1) = 0xD9
              then take nImageSize abyJPEG
              else abyJPEG
         else abyJPEG)"





text \<open>
  A marker segment as it stands in a bitstream: \<^verbatim>\<open>FF\<close>, the marker, the length of the
  rest (its own two bytes included) high byte first, and the payload.
\<close>

fun segment_bytes :: "GByte \<times> GByte list \<Rightarrow> GByte list" where
  "segment_bytes (m, payload) =
     [0xFF, m, word_of_nat ((length payload + 2) div 256),
      word_of_nat ((length payload + 2) mod 256)] @ payload"



definition le32_bytes :: "nat \<Rightarrow> GByte list" where
  "le32_bytes n =
     [word_of_nat n, word_of_nat (n div 256), word_of_nat (n div 65536),
      word_of_nat (n div 16777216)]"


section \<open>The decoder and its events\<close>

text \<open>
  Every round of the decoding loops calls \<^verbatim>\<open>JxlDecoderProcessInput\<close> and branches on the
  status it returns.  An event is that status together with the results of the other
  calls into the decoder, the file and the allocator that the round makes: they are the
  inputs of the round that the code does not control.
\<close>

record JxlBasicInfo =
  xsize :: nat
  ysize :: nat
  bits_per_sample :: nat
  exponent_bits_per_sample :: nat
  num_color_channels :: nat
  num_extra_channels :: nat
  alpha_bits :: nat

text \<open>
  What releasing the box buffer finds: the value of \<^verbatim>\<open>JxlDecoderReleaseBoxBuffer\<close>, the
  bytes the decoder left in the buffer, and whether \<^verbatim>\<open>ProcessCurrentBox\<close> ran without
  throwing.
\<close>

record box_release =
  nRemainingBytesInBuffer :: nat
  buffer_content :: "GByte list"
  no_exception :: bool

datatype decoder_event =
    JXL_DEC_SUCCESS box_release
  | JXL_DEC_ERROR
  | JXL_DEC_NEED_MORE_INPUT nat bool
    \<comment> \<open>\<^verbatim>\<open>nRead\<close> of \<^verbatim>\<open>VSIFReadL\<close>; whether \<^verbatim>\<open>JxlDecoderSetInput\<close> succeeded\<close>
  | JXL_DEC_BASIC_INFO "JxlBasicInfo option"
    \<comment> \<open>the result of \<^verbatim>\<open>JxlDecoderGetBasicInfo\<close>, \<open>None\<close> when it fails\<close>
  | JXL_DEC_BOX box_release "string option" nat bool bool
    \<comment> \<open>the box type (\<open>None\<close> when \<^verbatim>\<open>JxlDecoderGetBoxType\<close> fails), \<^verbatim>\<open>nRawSize\<close>, whether
        the buffer could be allocated, whether \<^verbatim>\<open>JxlDecoderSetBoxBuffer\<close> succeeded\<close>
  | JXL_DEC_COLOR_ENCODING
  | JXL_DEC_BOX_NEED_MORE_OUTPUT nat bool bool
    \<comment> \<open>\<^verbatim>\<open>nRemainingBytesInBuffer\<close>, whether the buffer could be grown, whether
        \<^verbatim>\<open>JxlDecoderSetBoxBuffer\<close> succeeded\<close>
  | JXL_DEC_FULL_IMAGE
  | JXL_DEC_NEED_IMAGE_OUT_BUFFER "nat option" bool "(nat option \<times> bool) list"
    \<comment> \<open>\<^verbatim>\<open>buffer_size\<close> of \<^verbatim>\<open>JxlDecoderImageOutBufferSize\<close> (\<open>None\<close> when it fails),
        whether \<^verbatim>\<open>JxlDecoderSetImageOutBuffer\<close> succeeded, and for each extra channel
        the size of \<^verbatim>\<open>JxlDecoderExtraChannelBufferSize\<close> and whether
        \<^verbatim>\<open>JxlDecoderSetExtraChannelBuffer\<close> succeeded\<close>
  | JXL_DEC_other_status

text \<open>How a round of a \<^verbatim>\<open>while (true)\<close> loop ends.\<close>

datatype ('s, 'e) round = Continue 's | Break 's | Return 'e

text \<open>
  Running a loop over the events the decoder produces.  \<open>Continue\<close> as a result means that
  the loop is still running when the events are used up.
\<close>

fun run_loop :: "('s \<Rightarrow> 'v \<Rightarrow> ('s, 'e) round) \<Rightarrow> 's \<Rightarrow> 'v list \<Rightarrow> ('s, 'e) round" where
  "run_loop step s [] = Continue s"
| "run_loop step s (ev # evs) =
     (case step s ev of
        Continue s' \<Rightarrow> run_loop step s' evs
      | Break s' \<Rightarrow> Break s'
      | Return e \<Rightarrow> Return e)"

section \<open>\<^verbatim>\<open>JPEGXLDataset::Open\<close>: basic info and boxes\<close>

datatype open_warning =
    GetBoxType_failed
  | Box_exceeds_MAX_BOX_BUFFER_SIZE string nat nat
  | Not_enough_memory_to_read_box string
  | SetBoxBuffer_failed
  | Unexpected_event

datatype open_failure =
    SetInput_failed
  | GetBasicInfo_failed
  | Too_big_raster
  | Unhandled_data_type
  | Did_not_get_basic_info

text \<open>
  The members of \<^verbatim>\<open>JPEGXLDataset\<close> (with those of its base classes that the code
  uses).  \<open>eDT\<close> is the data type of its bands; both pixel buffers are held as typed
  samples, and an empty \<^verbatim>\<open>std::vector\<close> is a buffer of length 0.  \<open>engine_calls\<close> is not a
  member: it counts the calls of \<^verbatim>\<open>JxlDecoderRewind\<close> and \<^verbatim>\<open>JxlDecoderProcessInput\<close>
  made for decoding pixels.
\<close>

record JPEGXLDataset =
  nRasterXSize :: nat
  nRasterYSize :: nat
  nBands :: nat
  eDT :: GDALDataType
  m_nBits :: nat
  m_nNonAlphaExtraChannels :: nat
  m_bDecodingFailed :: bool
  m_abyImage :: pixel_buffer
  m_abyExtraChannels :: "pixel_buffer list"
  m_osXMP :: "GByte list"
  m_abyEXIFBox :: "GByte list"
  m_aosEXIFMetadata :: "string list"
  m_bHasJPEGReconstructionData :: bool
  engine_calls :: nat

text \<open>
  The dataset together with the local variables of \<^verbatim>\<open>Open\<close>.  \<^verbatim>\<open>abyBoxBuffer\<close> is
  represented by its size: its content is what the decoder writes, and comes with the
  events.  \<open>warnings\<close> collects the \<^verbatim>\<open>CE_Warning\<close> messages.
\<close>

record open_state = JPEGXLDataset +
  osCurrentBox :: string
  abyBoxBuffer_size :: nat
  abyJumbBoxBuffer :: "GByte list"
  bGotInfo :: bool
  info :: "JxlBasicInfo option"
  l_nBands :: nat
  input_closed :: bool
  warnings :: "open_warning list"

definition initial_open_state :: open_state where
  "initial_open_state =
     \<lparr> nRasterXSize = 0, nRasterYSize = 0, nBands = 0, eDT = GDT_Unknown, m_nBits = 0,
       m_nNonAlphaExtraChannels = 0, m_bDecodingFailed = False, m_abyImage = ByteSamples [],
       m_abyExtraChannels = [], m_osXMP = [], m_abyEXIFBox = [], m_aosEXIFMetadata = [],
       m_bHasJPEGReconstructionData = False, engine_calls = 0,
       osCurrentBox = [], abyBoxBuffer_size = 1024 * 1024, abyJumbBoxBuffer = [],
       bGotInfo = False, info = None, l_nBands = 0, input_closed = False, warnings = [] \<rparr>"

text \<open>\<^verbatim>\<open>std::numeric_limits<size_t>::max()\<close> on a 64-bit platform.\<close>

definition SIZE_MAX :: nat where
  "SIZE_MAX = 2 ^ 64 - 1"

text \<open>The bytes of the buffer, of the size the buffer has.\<close>

definition box_buffer :: "nat \<Rightarrow> GByte list \<Rightarrow> GByte list" where
  "box_buffer n content = take n content @ replicate (n - length content) 0"

text \<open>The literal \<^verbatim>\<open>"<?xpacket"\<close>.\<close>

definition xpacket_prefix :: "GByte list" where
  "xpacket_prefix = [0x3C, 0x3F, 0x78, 0x70, 0x61, 0x63, 0x6B, 0x65, 0x74]"

text \<open>
  The lambda \<^verbatim>\<open>ProcessCurrentBox\<close>.  \<open>EXIFExtract\<close> stands for the calls of
  \<^verbatim>\<open>EXIFExtractMetadata\<close> on the box content after its four leading bytes, and yields the
  list of metadata items.
\<close>

definition ProcessCurrentBox ::
  "(GByte list \<Rightarrow> string list) \<Rightarrow> box_release \<Rightarrow> open_state \<Rightarrow> open_state" where
  "ProcessCurrentBox EXIFExtract rel st =
     (let abyBoxBuffer = box_buffer (abyBoxBuffer_size st) (buffer_content rel);
          nSize = length abyBoxBuffer - nRemainingBytesInBuffer rel;
          st' =
            (if osCurrentBox st = ''xml '' \<and> m_osXMP st = [] then
               let osXML = take nSize abyBoxBuffer
               in if take (length xpacket_prefix) osXML = xpacket_prefix
                  then st\<lparr> m_osXMP := osXML \<rparr> else st
             else if osCurrentBox st = ''Exif'' \<and> m_aosEXIFMetadata st = [] then
               if 12 < nSize \<and> abyBoxBuffer ! 0 = 0 \<and> abyBoxBuffer ! 1 = 0 \<and>
                  abyBoxBuffer ! 2 = 0 \<and> abyBoxBuffer ! 3 = 0 \<and>
                  (abyBoxBuffer ! 4 = 0x4D \<or> abyBoxBuffer ! 4 = 0x49)
               then st\<lparr> m_abyEXIFBox := m_abyEXIFBox st @ take (nSize - 4) (drop 4 abyBoxBuffer),
                        m_aosEXIFMetadata := EXIFExtract (drop 4 abyBoxBuffer) \<rparr>
               else st
             else if osCurrentBox st = ''jumb'' then st\<lparr> abyJumbBoxBuffer := abyBoxBuffer \<rparr>
             else st)
      in st'\<lparr> osCurrentBox := [] \<rparr>)"

text \<open>
  The \<^verbatim>\<open>try\<close> block at the head of the loop body, for the statuses \<^verbatim>\<open>JXL_DEC_SUCCESS\<close>
  and \<^verbatim>\<open>JXL_DEC_BOX\<close>: the pending box is processed; an exception leaves the state as it
  was and gives a warning.
\<close>

definition process_pending_box ::
  "(GByte list \<Rightarrow> string list) \<Rightarrow> box_release \<Rightarrow> open_state \<Rightarrow> open_state" where
  "process_pending_box EXIFExtract rel st =
     (if osCurrentBox st \<noteq> [] then
        if no_exception rel then ProcessCurrentBox EXIFExtract rel st
        else st\<lparr> warnings := warnings st @ [Not_enough_memory_to_read_box (osCurrentBox st)] \<rparr>
      else st)"

text \<open>The \<^verbatim>\<open>JXL_DEC_BASIC_INFO\<close> branch.\<close>

definition on_basic_info :: "JxlBasicInfo option \<Rightarrow> open_state \<Rightarrow> (open_state, open_failure) round" where
  "on_basic_info res st =
     (case res of
        None \<Rightarrow> Return GetBasicInfo_failed
      | Some i \<Rightarrow>
          if INT_MAX < xsize i \<or> INT_MAX < ysize i then Return Too_big_raster
          else
            let eDT' =
                  (if exponent_bits_per_sample i = 0 then
                     if bits_per_sample i \<le> 8 then GDT_Byte
                     else if bits_per_sample i \<le> 16 then GDT_UInt16
                     else eDT st
                   else if exponent_bits_per_sample i = 8 then GDT_Float32
                   else eDT st)
            in if eDT' = GDT_Unknown then Return Unhandled_data_type
               else Continue (st\<lparr> bGotInfo := True, info := Some i,
                      nRasterXSize := xsize i, nRasterYSize := ysize i,
                      m_nBits := bits_per_sample i, eDT := eDT',
                      l_nBands := num_color_channels i + num_extra_channels i,
                      m_nNonAlphaExtraChannels :=
                        (if num_extra_channels i = 1 \<and>
                            (num_color_channels i = 1 \<or> num_color_channels i = 3) \<and>
                            alpha_bits i \<noteq> 0
                         then 0 else num_extra_channels i) \<rparr>))"

text \<open>
  The \<^verbatim>\<open>JXL_DEC_BOX\<close> branch, after the pending box was processed.  \<open>nMaxBoxBufferSize\<close>
  is the value of the configuration option \<^verbatim>\<open>GDAL_JPEGXL_MAX_BOX_BUFFER_SIZE\<close>.
\<close>

definition on_box ::
  "nat \<Rightarrow> string option \<Rightarrow> nat \<Rightarrow> bool \<Rightarrow> bool \<Rightarrow> open_state \<Rightarrow> open_state" where
  "on_box nMaxBoxBufferSize box_type nRawSize alloc_ok set_ok st0 =
     (let st = st0\<lparr> osCurrentBox := [] \<rparr>
      in case box_type of
           None \<Rightarrow> st\<lparr> warnings := warnings st @ [GetBoxType_failed] \<rparr>
         | Some szType \<Rightarrow>
             if szType = ''xml '' \<or> szType = ''Exif'' \<or> szType = ''jumb'' then
               if nMaxBoxBufferSize < nRawSize then
                 st\<lparr> warnings := warnings st @
                       [Box_exceeds_MAX_BOX_BUFFER_SIZE szType nRawSize nMaxBoxBufferSize] \<rparr>
               else if abyBoxBuffer_size st < nRawSize \<and> SIZE_MAX div 2 < nRawSize then
                 st\<lparr> warnings := warnings st @ [Not_enough_memory_to_read_box szType] \<rparr>
               else if abyBoxBuffer_size st < nRawSize \<and> \<not> alloc_ok then
                 st\<lparr> abyBoxBuffer_size := 1024 * 1024,
                     warnings := warnings st @ [Not_enough_memory_to_read_box szType] \<rparr>
               else
                 let st = (if abyBoxBuffer_size st < nRawSize
                           then st\<lparr> abyBoxBuffer_size := nRawSize \<rparr> else st)
                 in if \<not> set_ok then st\<lparr> warnings := warnings st @ [SetBoxBuffer_failed] \<rparr>
                    else st\<lparr> osCurrentBox := szType \<rparr>
             else if szType = ''jbrd'' then st\<lparr> m_bHasJPEGReconstructionData := True \<rparr>
             else st)"

text \<open>The \<^verbatim>\<open>JXL_DEC_BOX_NEED_MORE_OUTPUT\<close> branch ("Grow abyBoxBuffer if it is too small").\<close>

definition on_box_need_more_output :: "nat \<Rightarrow> bool \<Rightarrow> bool \<Rightarrow> open_state \<Rightarrow> open_state" where
  "on_box_need_more_output nMaxBoxBufferSize alloc_ok set_ok st =
     (if SIZE_MAX div 2 < abyBoxBuffer_size st then
        st\<lparr> warnings := warnings st @ [Not_enough_memory_to_read_box (osCurrentBox st)],
            osCurrentBox := [] \<rparr>
      else
        let nNewBoxBufferSize = abyBoxBuffer_size st * 2
        in if nMaxBoxBufferSize < nNewBoxBufferSize then
             st\<lparr> warnings := warnings st @
                   [Box_exceeds_MAX_BOX_BUFFER_SIZE (osCurrentBox st) nNewBoxBufferSize
                      nMaxBoxBufferSize],
                 osCurrentBox := [] \<rparr>
           else if \<not> alloc_ok then
             st\<lparr> warnings := warnings st @ [Not_enough_memory_to_read_box (osCurrentBox st)],
                 osCurrentBox := [] \<rparr>
           else if \<not> set_ok then
             st\<lparr> abyBoxBuffer_size := nNewBoxBufferSize,
                 warnings := warnings st @ [SetBoxBuffer_failed],
                 osCurrentBox := [] \<rparr>
           else st\<lparr> abyBoxBuffer_size := nNewBoxBufferSize \<rparr>)"

text \<open>
  One round of the loop of \<^verbatim>\<open>Open\<close>.  \<^verbatim>\<open>m_abyInputData\<close> has \<^verbatim>\<open>1024 * 1024\<close> bytes.  The
  \<^verbatim>\<open>JXL_DEC_COLOR_ENCODING\<close> branch only sets the \<^verbatim>\<open>SOURCE_ICC_PROFILE\<close> metadata item,
  which is not part of the state modelled here.
\<close>

fun Open_round ::
  "nat \<Rightarrow> (GByte list \<Rightarrow> string list) \<Rightarrow> open_state \<Rightarrow> decoder_event \<Rightarrow>
     (open_state, open_failure) round" where
  "Open_round nMax EXIFExtract st (JXL_DEC_SUCCESS rel) =
     Break (process_pending_box EXIFExtract rel st)"
| "Open_round nMax EXIFExtract st (JXL_DEC_NEED_MORE_INPUT nRead set_ok) =
     (if nRead = 0 then Break (st\<lparr> input_closed := True \<rparr>)
      else if \<not> set_ok then Return SetInput_failed
      else if nRead < 1024 * 1024 then Continue (st\<lparr> input_closed := True \<rparr>)
      else Continue st)"
| "Open_round nMax EXIFExtract st (JXL_DEC_BASIC_INFO res) = on_basic_info res st"
| "Open_round nMax EXIFExtract st (JXL_DEC_BOX rel box_type nRawSize alloc_ok set_ok) =
     Continue (on_box nMax box_type nRawSize alloc_ok set_ok
       (process_pending_box EXIFExtract rel st))"
| "Open_round nMax EXIFExtract st JXL_DEC_COLOR_ENCODING = Continue st"
| "Open_round nMax EXIFExtract st (JXL_DEC_BOX_NEED_MORE_OUTPUT nRemaining alloc_ok set_ok) =
     Continue (on_box_need_more_output nMax alloc_ok set_ok st)"
| "Open_round nMax EXIFExtract st JXL_DEC_ERROR =
     Break (st\<lparr> warnings := warnings st @ [Unexpected_event] \<rparr>)"
| "Open_round nMax EXIFExtract st JXL_DEC_FULL_IMAGE =
     Break (st\<lparr> warnings := warnings st @ [Unexpected_event] \<rparr>)"
| "Open_round nMax EXIFExtract st (JXL_DEC_NEED_IMAGE_OUT_BUFFER sz set_ok extras) =
     Break (st\<lparr> warnings := warnings st @ [Unexpected_event] \<rparr>)"
| "Open_round nMax EXIFExtract st JXL_DEC_other_status =
     Break (st\<lparr> warnings := warnings st @ [Unexpected_event] \<rparr>)"

text \<open>
  \<^verbatim>\<open>Open\<close> from the loop to its return value: \<open>Some (Inr st)\<close> when it returns
  \<^verbatim>\<open>true\<close>, with the bands instantiated (\<^verbatim>\<open>l_nBands\<close> of them); \<open>Some (Inl e)\<close> when
  it returns \<^verbatim>\<open>false\<close>; \<open>None\<close> when the loop has not ended after the given events.
\<close>

definition Open ::
  "nat \<Rightarrow> (GByte list \<Rightarrow> string list) \<Rightarrow> decoder_event list \<Rightarrow> (open_failure + open_state) option" where
  "Open nMax EXIFExtract evs =
     (case run_loop (Open_round nMax EXIFExtract) initial_open_state evs of
        Continue st \<Rightarrow> None
      | Return e \<Rightarrow> Some (Inl e)
      | Break st \<Rightarrow>
          if bGotInfo st then Some (Inr (st\<lparr> nBands := l_nBands st \<rparr>))
          else Some (Inl Did_not_get_basic_info))"


text \<open>
  Nothing is retained from boxes: no box is being read, and neither XMP, EXIF nor the
  georeferencing payload is held.
\<close>

definition retained_nothing :: "open_state \<Rightarrow> bool" where
  "retained_nothing st \<longleftrightarrow>
     osCurrentBox st = [] \<and> m_osXMP st = [] \<and> m_abyEXIFBox st = [] \<and>
     m_aosEXIFMetadata st = [] \<and> abyJumbBoxBuffer st = []"

text \<open>
  An event that is not the opening of a recognized box whose raw size is within the
  ceiling.
\<close>

definition no_box_within_ceiling :: "nat \<Rightarrow> decoder_event \<Rightarrow> bool" where
  "no_box_within_ceiling nMax ev =
     (case ev of
        JXL_DEC_BOX rel (Some szType) nRawSize alloc_ok set_ok \<Rightarrow>
          if szType = ''xml '' \<or> szType = ''Exif'' \<or> szType = ''jumb''
          then nMax < nRawSize else True
      | _ \<Rightarrow> True)"


section \<open>Decoding the pixels\<close>

datatype CPLErr = CE_None | CE_Failure

text \<open>
  A decoding session as the code meets it: whether \<^verbatim>\<open>JxlDecoderSubscribeEvents\<close> succeeds,
  the events of the loop, and the samples that stand in the registered buffers when the
  loop is left (written by the decoder, which is not modelled).  For the cached decode,
  also whether the image buffer can be allocated, and the index of the first
  extra-channel buffer whose allocation throws, if any.
\<close>

record decode_session =
  subscribe_ok :: bool
  events :: "decoder_event list"
  buffers_at_exit :: decoded_buffers
  alloc_image_ok :: bool
  alloc_extra_fails_at :: "nat option"

definition buffer_bytes :: "pixel_buffer \<Rightarrow> nat" where
  "buffer_bytes buf = buffer_length buf * GDALGetDataTypeSizeBytes (buffer_type buf)"

text \<open>A buffer of \<open>n\<close> zero samples, as \<^verbatim>\<open>std::vector::resize\<close> makes it.\<close>

fun zero_buffer :: "GDALDataType \<Rightarrow> nat \<Rightarrow> pixel_buffer" where
  "zero_buffer GDT_UInt16 n = UInt16Samples (replicate n 0)"
| "zero_buffer GDT_Float32 n = Float32Samples (replicate n 0)"
| "zero_buffer dt n = ByteSamples (replicate n 0)"

text \<open>
  The loop over the extra channels in the \<^verbatim>\<open>JXL_DEC_NEED_IMAGE_OUT_BUFFER\<close> branch: every
  channel must report the size of its buffer and accept the buffer.
\<close>

definition extra_channel_buffers_ok :: "JPEGXLDataset \<Rightarrow> (nat option \<times> bool) list \<Rightarrow> bool" where
  "extra_channel_buffers_ok ds extras \<longleftrightarrow>
     list_all (\<lambda>i. i < length extras \<and> i < length (m_abyExtraChannels ds) \<and>
                  fst (extras ! i) = Some (buffer_bytes (m_abyExtraChannels ds ! i)) \<and>
                  snd (extras ! i))
       [0..<m_nNonAlphaExtraChannels ds]"

text \<open>
  One round of the loop of \<^verbatim>\<open>GetDecodedImage(void *, size_t)\<close>.  A status the loop does not
  expect gives a warning and the loop goes on.
\<close>

fun GetDecodedImage_round ::
  "nat \<Rightarrow> JPEGXLDataset \<Rightarrow> decoder_event \<Rightarrow> (JPEGXLDataset, unit) round" where
  "GetDecodedImage_round nOutputDataSize ds JXL_DEC_ERROR =
     Break (ds\<lparr> m_bDecodingFailed := True \<rparr>)"
| "GetDecodedImage_round nOutputDataSize ds (JXL_DEC_NEED_MORE_INPUT nRead set_ok) =
     (if nRead = 0 then Break (ds\<lparr> m_bDecodingFailed := True \<rparr>)
      else if \<not> set_ok then Break (ds\<lparr> m_bDecodingFailed := True \<rparr>)
      else Continue ds)"
| "GetDecodedImage_round nOutputDataSize ds (JXL_DEC_SUCCESS rel) = Break ds"
| "GetDecodedImage_round nOutputDataSize ds JXL_DEC_FULL_IMAGE = Continue ds"
| "GetDecodedImage_round nOutputDataSize ds (JXL_DEC_NEED_IMAGE_OUT_BUFFER sz set_ok extras) =
     (case sz of
        None \<Rightarrow> Break (ds\<lparr> m_bDecodingFailed := True \<rparr>)
      | Some buffer_size \<Rightarrow>
          if buffer_size \<noteq> nOutputDataSize then Break (ds\<lparr> m_bDecodingFailed := True \<rparr>)
          else if \<not> set_ok then Break (ds\<lparr> m_bDecodingFailed := True \<rparr>)
          else if \<not> extra_channel_buffers_ok ds extras then
            Break (ds\<lparr> m_bDecodingFailed := True \<rparr>)
          else Continue ds)"
| "GetDecodedImage_round nOutputDataSize ds ev = Continue ds"

text \<open>Each round starts with a call of \<^verbatim>\<open>JxlDecoderProcessInput\<close>.\<close>

definition counted_round ::
  "nat \<Rightarrow> JPEGXLDataset \<Rightarrow> decoder_event \<Rightarrow> (JPEGXLDataset, unit) round" where
  "counted_round nOutputDataSize ds ev =
     GetDecodedImage_round nOutputDataSize (ds\<lparr> engine_calls := engine_calls ds + 1 \<rparr>) ev"

text \<open>
  \<^verbatim>\<open>GetDecodedImage(void *pabyOutputData, size_t nOutputDataSize)\<close>: rewind, subscribe, the
  loop, and the rescaling of the buffers.  The result is the dataset and the output
  buffer; \<open>None\<close> when the loop has not ended after the events of the session.
\<close>

definition GetDecodedImage_into ::
  "decode_session \<Rightarrow> pixel_buffer \<Rightarrow> nat \<Rightarrow> JPEGXLDataset \<Rightarrow> (JPEGXLDataset \<times> pixel_buffer) option" where
  "GetDecodedImage_into session pabyOutputData nOutputDataSize ds0 =
     (let ds = ds0\<lparr> engine_calls := engine_calls ds0 + 1 \<rparr>
      in if \<not> subscribe_ok session then Some (ds, pabyOutputData)
         else
           case run_loop (counted_round nOutputDataSize) ds (events session) of
             Continue ds' \<Rightarrow> None
           | Return u \<Rightarrow> None
           | Break ds' \<Rightarrow>
               let b = GetDecodedImage_rescale (nRasterXSize ds') (nRasterYSize ds') (nBands ds')
                         (m_nNonAlphaExtraChannels ds') (m_nBits ds') (eDT ds')
                         (buffers_at_exit session)
               in Some (ds'\<lparr> m_abyExtraChannels := extra_channels b \<rparr>, output_data b))"

text \<open>
  The extra channel, among the first \<open>n\<close>, at which \<^verbatim>\<open>m_abyExtraChannels[i].resize\<close>
  throws.
\<close>

definition first_failing_alloc :: "decode_session \<Rightarrow> nat \<Rightarrow> nat option" where
  "first_failing_alloc session n =
     (case alloc_extra_fails_at session of
        Some k \<Rightarrow> if k < n then Some k else None
      | None \<Rightarrow> None)"

text \<open>
  \<^verbatim>\<open>GetDecodedImage()\<close>, which fills and returns \<^verbatim>\<open>m_abyImage\<close>.  The dimensions and the
  band count of an opened dataset are positive.
\<close>

definition GetDecodedImage :: "decode_session \<Rightarrow> JPEGXLDataset \<Rightarrow> JPEGXLDataset option" where
  "GetDecodedImage session ds =
     (if m_bDecodingFailed ds \<or> buffer_length (m_abyImage ds) \<noteq> 0 then Some ds
      else
        let nDataSize = GDALGetDataTypeSizeBytes (eDT ds);
            nNonExtraBands = nBands ds - m_nNonAlphaExtraChannels ds
        in if SIZE_MAX div nRasterYSize ds div nDataSize div nNonExtraBands < nRasterXSize ds then
             Some (ds\<lparr> m_bDecodingFailed := True \<rparr>)
           else if \<not> alloc_image_ok session then Some (ds\<lparr> m_bDecodingFailed := True \<rparr>)
           else
             let ds = ds\<lparr> m_abyImage :=
                        zero_buffer (eDT ds) (nRasterXSize ds * nRasterYSize ds * nNonExtraBands) \<rparr>
             in case first_failing_alloc session (m_nNonAlphaExtraChannels ds) of
                  Some k \<Rightarrow>
                    Some (ds\<lparr> m_abyExtraChannels :=
                               map (\<lambda>i. zero_buffer (eDT ds)
                                      (if i < k then nRasterXSize ds * nRasterYSize ds else 0))
                                 [0..<m_nNonAlphaExtraChannels ds],
                             m_bDecodingFailed := True \<rparr>)
                | None \<Rightarrow>
                    let ds = ds\<lparr> m_abyExtraChannels :=
                               replicate (m_nNonAlphaExtraChannels ds)
                                 (zero_buffer (eDT ds) (nRasterXSize ds * nRasterYSize ds)) \<rparr>
                    in case GetDecodedImage_into session (m_abyImage ds)
                              (buffer_bytes (m_abyImage ds)) ds of
                         None \<Rightarrow> None
                       | Some (ds, pixels) \<Rightarrow>
                           Some (if m_bDecodingFailed ds
                                 then ds\<lparr> m_abyImage := zero_buffer (eDT ds) 0 \<rparr>
                                 else ds\<lparr> m_abyImage := pixels \<rparr>))"

section \<open>Pixel-access requests\<close>

text \<open>
  A request returns a \<^verbatim>\<open>CPLErr\<close> and leaves the dataset in a new state; the samples it
  copies to the caller's buffer are not part of the model.  It does not return when the
  decoding loop does not end, and it is passed on when the request is one that this file
  leaves to \<^verbatim>\<open>GDALPamDataset::IRasterIO\<close>.
\<close>

datatype request_result =
    Returns CPLErr JPEGXLDataset
  | Decoder_still_running
  | Passed_to_GDALPamDataset

text \<open>\<^verbatim>\<open>JPEGXLRasterBand::IReadBlock\<close>.\<close>

definition IReadBlock ::
  "decode_session \<Rightarrow> nat \<Rightarrow> nat \<Rightarrow> JPEGXLDataset \<Rightarrow> request_result" where
  "IReadBlock session nBand nBlockYOff ds =
     (case GetDecodedImage session ds of
        None \<Rightarrow> Decoder_still_running
      | Some ds' \<Rightarrow>
          Returns (if buffer_length (m_abyImage ds') = 0 then CE_Failure else CE_None) ds')"

datatype GDALRWFlag = GF_Read | GF_Write

record raster_request =
  eRWFlag :: GDALRWFlag
  nXOff :: int
  nYOff :: int
  nXSize :: int
  nYSize :: int
  nBufXSize :: int
  nBufYSize :: int
  eBufType :: GDALDataType
  panBandMap :: "int list"
  nPixelSpace :: int
  nLineSpace :: int
  nBandSpace :: int

text \<open>
  The condition under which \<^verbatim>\<open>JPEGXLDataset::IRasterIO\<close> (and
  \<^verbatim>\<open>JPEGXLRasterBand::IRasterIO\<close>) serves the request itself: a read of the whole image at
  full resolution.
\<close>

definition whole_image :: "JPEGXLDataset \<Rightarrow> raster_request \<Rightarrow> bool" where
  "whole_image ds req \<longleftrightarrow>
     eRWFlag req = GF_Read \<and> nXOff req = 0 \<and> nYOff req = 0 \<and>
     nXSize req = int (nRasterXSize ds) \<and> nYSize req = int (nRasterYSize ds) \<and>
     nBufXSize req = nXSize req \<and> nBufYSize req = nYSize req"

text \<open>The lambda \<^verbatim>\<open>AreSequentialBands\<close>.\<close>

definition AreSequentialBands :: "int list \<Rightarrow> bool" where
  "AreSequentialBands panItems \<longleftrightarrow>
     list_all (\<lambda>i. panItems ! i = int i + 1) [0..<length panItems]"

definition bIsPixelInterleaveBuffer :: "JPEGXLDataset \<Rightarrow> raster_request \<Rightarrow> bool" where
  "bIsPixelInterleaveBuffer ds req \<longleftrightarrow>
     (let nBufTypeSize = int (GDALGetDataTypeSizeBytes (eBufType req));
          nBandCount = int (length (panBandMap req))
      in ((nBandSpace req = 0 \<and> nBandCount = 1) \<or> nBandSpace req = nBufTypeSize) \<and>
         nPixelSpace req = nBufTypeSize * nBandCount \<and>
         nLineSpace req = nPixelSpace req * int (nRasterXSize ds))"

text \<open>
  \<^verbatim>\<open>JPEGXLDataset::IRasterIO\<close>.  \<open>pData\<close> is the caller's buffer, which the direct path
  hands to the decoder.  The two copying paths that follow a cached decode (the bulk copy
  and the copy by band and row) differ only in the samples they produce.
\<close>

definition IRasterIO ::
  "decode_session \<Rightarrow> raster_request \<Rightarrow> pixel_buffer \<Rightarrow> JPEGXLDataset \<Rightarrow> request_result" where
  "IRasterIO session req pData ds =
     (if whole_image ds req then
        if m_bDecodingFailed ds then Returns CE_Failure ds
        else if eBufType req = eDT ds \<and> AreSequentialBands (panBandMap req) \<and>
                length (panBandMap req) = nBands ds \<and> m_nNonAlphaExtraChannels ds = 0 \<and>
                bIsPixelInterleaveBuffer ds req then
          case GetDecodedImage_into session pData
                 (nRasterXSize ds * nRasterYSize ds * nBands ds * GDALGetDataTypeSizeBytes (eDT ds))
                 ds of
            None \<Rightarrow> Decoder_still_running
          | Some (ds', pixels) \<Rightarrow>
              Returns (if m_bDecodingFailed ds' then CE_Failure else CE_None) ds'
        else
          case GetDecodedImage session ds of
            None \<Rightarrow> Decoder_still_running
          | Some ds' \<Rightarrow>
              Returns (if buffer_length (m_abyImage ds') = 0 then CE_Failure else CE_None) ds'
      else Passed_to_GDALPamDataset)"

text \<open>
  \<^verbatim>\<open>JPEGXLRasterBand::IRasterIO\<close> passes a whole-image read of its band to the dataset,
  with \<^verbatim>\<open>nBandCount = 1\<close>, \<^verbatim>\<open>panBandMap = &nBand\<close> and \<^verbatim>\<open>nBandSpace = 0\<close>.
\<close>

definition band_IRasterIO ::
  "decode_session \<Rightarrow> int \<Rightarrow> raster_request \<Rightarrow> pixel_buffer \<Rightarrow> JPEGXLDataset \<Rightarrow>
     request_result" where
  "band_IRasterIO session nBand req pData ds =
     IRasterIO session (req\<lparr> panBandMap := [nBand], nBandSpace := 0 \<rparr>) pData ds"

text \<open>
  A pixel-access request, and serving a sequence of them, each with its session: the
  statuses returned and the final dataset, or \<open>None\<close> when one of the requests does not
  return here.
\<close>

datatype pixel_request =
    Block_read nat nat
  | Dataset_read raster_request pixel_buffer
  | Band_read int raster_request pixel_buffer

fun serve :: "decode_session \<Rightarrow> pixel_request \<Rightarrow> JPEGXLDataset \<Rightarrow> request_result" where
  "serve session (Block_read nBand nBlockYOff) ds = IReadBlock session nBand nBlockYOff ds"
| "serve session (Dataset_read req pData) ds = IRasterIO session req pData ds"
| "serve session (Band_read nBand req pData) ds = band_IRasterIO session nBand req pData ds"

fun serve_all ::
  "(decode_session \<times> pixel_request) list \<Rightarrow> JPEGXLDataset \<Rightarrow> (CPLErr list \<times> JPEGXLDataset) option" where
  "serve_all [] ds = Some ([], ds)"
| "serve_all ((session, r) # rs) ds =
     (case serve session r ds of
        Returns err ds' \<Rightarrow>
          (case serve_all rs ds' of
             None \<Rightarrow> None
           | Some (errs, ds'') \<Rightarrow> Some (err # errs, ds''))
      | _ \<Rightarrow> None)"


text \<open>
  The requests that this file serves itself: block reads, and reads of the whole image.
\<close>

definition served_here :: "JPEGXLDataset \<Rightarrow> pixel_request \<Rightarrow> bool" where
  "served_here ds r =
     (case r of
        Block_read nBand nBlockYOff \<Rightarrow> True
      | Dataset_read req pData \<Rightarrow> whole_image ds req
      | Band_read nBand req pData \<Rightarrow> whole_image ds req)"

definition is_block_read :: "pixel_request \<Rightarrow> bool" where
  "is_block_read r = (case r of Block_read nBand nBlockYOff \<Rightarrow> True | _ \<Rightarrow> False)"

text \<open>The status with which a request returns.\<close>

definition status_of :: "JPEGXLDataset \<Rightarrow> decode_session \<times> pixel_request \<Rightarrow> CPLErr" where
  "status_of ds sr = (case serve (fst sr) (snd sr) ds of Returns err ds' \<Rightarrow> err | _ \<Rightarrow> CE_Failure)"


section \<open>Example inputs\<close>

text \<open>
  A one-pixel, one-band, 8-bit image: its basic info, the dataset after \<^verbatim>\<open>Open\<close>, a
  whole-image request for it, and decoding sessions that succeed, that run out of input,
  and that meet a decoding error.
\<close>

definition gray8_info :: JxlBasicInfo where
  "gray8_info = \<lparr> xsize = 1, ysize = 1, bits_per_sample = 8, exponent_bits_per_sample = 0,
     num_color_channels = 1, num_extra_channels = 0, alpha_bits = 0 \<rparr>"

definition opened_gray8 :: JPEGXLDataset where
  "opened_gray8 = \<lparr> nRasterXSize = 1, nRasterYSize = 1, nBands = 1, eDT = GDT_Byte, m_nBits = 8,
     m_nNonAlphaExtraChannels = 0, m_bDecodingFailed = False, m_abyImage = ByteSamples [],
     m_abyExtraChannels = [], m_osXMP = [], m_abyEXIFBox = [], m_aosEXIFMetadata = [],
     m_bHasJPEGReconstructionData = False, engine_calls = 0 \<rparr>"

definition truncated_session :: decode_session where
  "truncated_session = \<lparr> subscribe_ok = True,
     events = [JXL_DEC_NEED_MORE_INPUT 5 True, JXL_DEC_NEED_MORE_INPUT 0 True],
     buffers_at_exit = \<lparr> output_data = ByteSamples [0], extra_channels = [] \<rparr>,
     alloc_image_ok = True, alloc_extra_fails_at = None \<rparr>"

definition no_release :: box_release where
  "no_release = \<lparr> nRemainingBytesInBuffer = 0, buffer_content = [], no_exception = True \<rparr>"

definition whole_gray8_request :: raster_request where
  "whole_gray8_request = \<lparr> eRWFlag = GF_Read, nXOff = 0, nYOff = 0, nXSize = 1, nYSize = 1,
     nBufXSize = 1, nBufYSize = 1, eBufType = GDT_Byte, panBandMap = [1],
     nPixelSpace = 1, nLineSpace = 1, nBandSpace = 0 \<rparr>"

definition good_session :: decode_session where
  "good_session = \<lparr> subscribe_ok = True,
     events = [JXL_DEC_NEED_IMAGE_OUT_BUFFER (Some 1) True [], JXL_DEC_FULL_IMAGE,
               JXL_DEC_SUCCESS no_release],
     buffers_at_exit = \<lparr> output_data = ByteSamples [128], extra_channels = [] \<rparr>,
     alloc_image_ok = True, alloc_extra_fails_at = None \<rparr>"

definition error_session :: decode_session where
  "error_session = \<lparr> subscribe_ok = True, events = [JXL_DEC_ERROR],
     buffers_at_exit = \<lparr> output_data = ByteSamples [0], extra_channels = [] \<rparr>,
     alloc_image_ok = True, alloc_extra_fails_at = None \<rparr>"

text \<open>
  The same image with one extra channel that is not alpha, a session in which the buffer
  of that channel cannot be allocated, and a session in which
  \<^verbatim>\<open>JxlDecoderSubscribeEvents\<close> fails.
\<close>

definition opened_gray8_extra :: JPEGXLDataset where
  "opened_gray8_extra = opened_gray8\<lparr> nBands := 2, m_nNonAlphaExtraChannels := 1 \<rparr>"

definition extra_alloc_failure_session :: decode_session where
  "extra_alloc_failure_session = good_session\<lparr> alloc_extra_fails_at := Some 0 \<rparr>"

definition no_subscription_session :: decode_session where
  "no_subscription_session = good_session\<lparr> subscribe_ok := False \<rparr>"

section \<open>Properties of the rescaling\<close>

lemma for_each_sample_map:
  "nSamples \<le> length xs \<Longrightarrow>
     for_each_sample nSamples f xs = map f (take nSamples xs) @ drop nSamples xs"
proof (induction nSamples)
  case 0
  then show ?case by (simp add: for_each_sample_def)
next
  case (Suc n)
  then have n: "n < length xs" by simp
  have "for_each_sample (Suc n) f xs =
          (for_each_sample n f xs)[n := f (for_each_sample n f xs ! n)]"
    by (simp add: for_each_sample_def)
  also have "for_each_sample n f xs = map f (take n xs) @ drop n xs"
    using Suc by simp
  also have "(map f (take n xs) @ drop n xs)[n := f ((map f (take n xs) @ drop n xs) ! n)]
               = map f (take (Suc n) xs) @ drop (Suc n) xs"
    using n
    by (simp add: list_update_append nth_append take_Suc_conv_app_nth
        Cons_nth_drop_Suc [symmetric])
  finally show ?case .
qed

lemma for_each_sample_all:
  "for_each_sample (length xs) f xs = map f xs"
  by (simp add: for_each_sample_map)

lemma div_add_small:
  fixes s T k :: int
  assumes "0 \<le> k" "k < T"
  shows "(s * T + k) div T = s"
  using assms by (simp add: div_pos_pos_trivial)

lemma roundtrip_int:
  fixes s M T H :: int
  assumes M: "0 < M" and H1: "M div 2 + H < T" and H2: "M - 1 - M div 2 \<le> H"
  shows "(((s * T + M div 2) div M) * M + H) div T = s"
proof -
  define r where "r = (s * T + M div 2) mod M"
  define k where "k = M div 2 - r + H"
  have r: "0 \<le> r" "r < M" using M by (simp_all add: r_def)
  have "((s * T + M div 2) div M) * M = s * T + M div 2 - r"
    unfolding r_def by (simp add: algebra_simps minus_mod_eq_mult_div [symmetric])
  then have "((s * T + M div 2) div M) * M + H = s * T + k" by (simp add: k_def)
  moreover have "0 \<le> k" using r H2 unfolding k_def by linarith
  moreover have "k < T" using r H1 unfolding k_def by linarith
  ultimately show ?thesis using div_add_small [of k T s] by simp
qed

lemma div_le_bound:
  fixes x M q :: int
  assumes "0 < M" "x < (q + 1) * M"
  shows "x div M \<le> q"
proof (rule ccontr)
  assume "\<not> x div M \<le> q"
  then have "q + 1 \<le> x div M" by simp
  then have "(q + 1) * M \<le> (x div M) * M" using assms(1) by (simp add: mult_right_mono)
  also have "\<dots> \<le> x"
    using div_mult_mod_eq [of x M] pos_mod_sign [of M x] assms(1) by linarith
  finally show False using assms(2) by simp
qed

lemma enc_bound:
  fixes s M T :: int
  assumes "0 < M" "0 \<le> s" "s \<le> M" "0 \<le> T"
  shows "0 \<le> (s * T + M div 2) div M" "(s * T + M div 2) div M \<le> T"
proof -
  show "0 \<le> (s * T + M div 2) div M" using assms by (simp add: pos_imp_zdiv_nonneg_iff)
  have "s * T \<le> M * T" using assms by (simp add: mult_right_mono)
  then have "s * T + M div 2 < M * T + M" using assms by linarith
  then have "s * T + M div 2 < (T + 1) * M" by (simp add: algebra_simps)
  then show "(s * T + M div 2) div M \<le> T" using assms(1) by (rule div_le_bound [rotated])
qed

lemma dec_nearest:
  fixes s M T :: int
  assumes T: "0 < T" "odd T" and s: "0 \<le> s" "s \<le> T" and M: "0 \<le> M"
  shows "0 \<le> (s * M + T div 2) div T" "(s * M + T div 2) div T \<le> M"
        "2 * \<bar>T * ((s * M + T div 2) div T) - s * M\<bar> < T"
proof -
  define h where "h = T div 2"
  define r where "r = (s * M + h) mod T"
  have r: "0 \<le> r" "r < T" using T by (simp_all add: r_def)
  have "T * ((s * M + h) div T) = s * M + h - r"
    unfolding r_def by (simp add: algebra_simps minus_mod_eq_mult_div [symmetric])
  then have eq: "T * ((s * M + h) div T) - s * M = h - r" by simp
  have T2: "2 * h = T - 1" unfolding h_def using T(2) by presburger
  have "2 * \<bar>h - r\<bar> < T" using r T2 by presburger
  then show "2 * \<bar>T * ((s * M + T div 2) div T) - s * M\<bar> < T"
    using eq by (simp add: h_def)
  show "0 \<le> (s * M + T div 2) div T" using T s M by (simp add: pos_imp_zdiv_nonneg_iff)
  have "s * M \<le> T * M" using s M by (simp add: mult_right_mono)
  then have "s * M + T div 2 < (M + 1) * T" using T2 T by (simp add: algebra_simps) 
  then show "(s * M + T div 2) div T \<le> M" using T(1) by (rule div_le_bound [rotated])
qed

lemma nMaxVal_nonneg: "0 \<le> nMaxVal b"
  by (simp add: nMaxVal_def)

lemma nMaxVal_pos: "1 \<le> b \<Longrightarrow> 1 \<le> nMaxVal b"
proof -
  assume "1 \<le> b"
  then have "(2::int) ^ 1 \<le> 2 ^ b" by (intro power_increasing) simp_all
  then show ?thesis unfolding nMaxVal_def by simp
qed

lemma nMaxVal_le: "b \<le> n \<Longrightarrow> nMaxVal b \<le> 2 ^ n - 1"
proof -
  assume "b \<le> n"
  then have "(2::int) ^ b \<le> 2 ^ n" by (intro power_increasing) simp_all
  then show ?thesis unfolding nMaxVal_def by linarith
qed

lemma uint_decode_sample_Byte:
  assumes "b \<le> 8"
  shows "uint (decode_sample_Byte b s) = (uint s * nMaxVal b + 127) div 255"
proof -
  have s: "0 \<le> uint s" "uint s \<le> 255" using uint_lt2p [of s] by simp_all
  have M: "nMaxVal b \<le> 255" using nMaxVal_le [OF assms] by simp
  have "0 \<le> (uint s * nMaxVal b + 255 div 2) div 255"
       "(uint s * nMaxVal b + 255 div 2) div 255 \<le> nMaxVal b"
    using dec_nearest(1,2) [of 255 "uint s" "nMaxVal b"] s nMaxVal_nonneg [of b] by simp_all
  then have "0 \<le> (uint s * nMaxVal b + 127) div 255" "(uint s * nMaxVal b + 127) div 255 < 256"
    using M by simp_all
  then show ?thesis
    by (simp add: decode_sample_Byte_def uint_word_of_int)
qed

lemma uint_decode_sample_UInt16:
  assumes "b \<le> 16"
  shows "uint (decode_sample_UInt16 b s) = (uint s * nMaxVal b + 32767) div 65535"
proof -
  have s: "0 \<le> uint s" "uint s \<le> 65535" using uint_lt2p [of s] by simp_all
  have M: "nMaxVal b \<le> 65535" using nMaxVal_le [OF assms] by simp
  have "0 \<le> (uint s * nMaxVal b + 65535 div 2) div 65535"
       "(uint s * nMaxVal b + 65535 div 2) div 65535 \<le> nMaxVal b"
    using dec_nearest(1,2) [of 65535 "uint s" "nMaxVal b"] s nMaxVal_nonneg [of b] by simp_all
  then have "0 \<le> (uint s * nMaxVal b + 32767) div 65535"
            "(uint s * nMaxVal b + 32767) div 65535 < 65536"
    using M by simp_all
  then show ?thesis
    by (simp add: decode_sample_UInt16_def uint_word_of_int)
qed

lemma uint_encode_sample_Byte:
  assumes "1 \<le> b" "uint s \<le> nMaxVal b"
  shows "uint (encode_sample_Byte b s) = (uint s * 255 + nMaxVal b div 2) div nMaxVal b"
proof -
  have M: "0 < nMaxVal b" using nMaxVal_pos [OF assms(1)] by simp
  have "0 \<le> (uint s * 255 + nMaxVal b div 2) div nMaxVal b"
       "(uint s * 255 + nMaxVal b div 2) div nMaxVal b \<le> 255"
    using enc_bound [OF M _ assms(2), of 255] by simp_all
  then show ?thesis using assms(2)
    by (simp add: encode_sample_Byte_def uint_word_of_int min_def)
qed

lemma uint_encode_sample_UInt16:
  assumes "1 \<le> b" "uint s \<le> nMaxVal b"
  shows "uint (encode_sample_UInt16 b s) = (uint s * 65535 + nMaxVal b div 2) div nMaxVal b"
proof -
  have M: "0 < nMaxVal b" using nMaxVal_pos [OF assms(1)] by simp
  have "0 \<le> (uint s * 65535 + nMaxVal b div 2) div nMaxVal b"
       "(uint s * 65535 + nMaxVal b div 2) div nMaxVal b \<le> 65535"
    using enc_bound [OF M _ assms(2), of 65535] by simp_all
  then show ?thesis using assms(2)
    by (simp add: encode_sample_UInt16_def uint_word_of_int min_def)
qed

lemma decode_encode_Byte:
  assumes "1 \<le> b" "b < 8" "uint s \<le> 2 ^ b - 1"
  shows "decode_sample_Byte b (encode_sample_Byte b s) = s"
proof -
  have s: "uint s \<le> nMaxVal b" using assms(3) by (simp add: nMaxVal_def)
  have M: "0 < nMaxVal b" "nMaxVal b \<le> 127"
    using nMaxVal_pos [OF assms(1)] nMaxVal_le [of b 7] assms(2) by simp_all
  have "uint (decode_sample_Byte b (encode_sample_Byte b s)) =
          ((uint s * 255 + nMaxVal b div 2) div nMaxVal b * nMaxVal b + 127) div 255"
    using assms by (simp add: uint_decode_sample_Byte uint_encode_sample_Byte s)
  also have "\<dots> = uint s"
    using M by (intro roundtrip_int) simp_all
  finally show ?thesis by (simp add: word_uint_eq_iff)
qed

lemma decode_encode_UInt16:
  assumes "1 \<le> b" "b < 16" "uint s \<le> 2 ^ b - 1"
  shows "decode_sample_UInt16 b (encode_sample_UInt16 b s) = s"
proof -
  have s: "uint s \<le> nMaxVal b" using assms(3) by (simp add: nMaxVal_def)
  have M: "0 < nMaxVal b" "nMaxVal b \<le> 32767"
    using nMaxVal_pos [OF assms(1)] nMaxVal_le [of b 15] assms(2) by simp_all
  have "uint (decode_sample_UInt16 b (encode_sample_UInt16 b s)) =
          ((uint s * 65535 + nMaxVal b div 2) div nMaxVal b * nMaxVal b + 32767) div 65535"
    using assms by (simp add: uint_decode_sample_UInt16 uint_encode_sample_UInt16 s)
  also have "\<dots> = uint s"
    using M by (intro roundtrip_int) simp_all
  finally show ?thesis by (simp add: word_uint_eq_iff)
qed

text \<open>
  The intermediate values of the four sample formulas stay below \<open>2^31\<close>: modelling
  \<^verbatim>\<open>int\<close> by the integers loses nothing.
\<close>

lemma rescale_arithmetic_fits_int:
  fixes s8 :: "8 word" and s16 :: "16 word"
  assumes "b < 16"
  shows "uint s16 * nMaxVal b + 32767 < 2 ^ 31"
    and "min (uint s16) (nMaxVal b) * 65535 + nMaxVal b div 2 < 2 ^ 31"
    and "uint s8 * nMaxVal b + 127 < 2 ^ 31"
    and "min (uint s8) (nMaxVal b) * 255 + nMaxVal b div 2 < 2 ^ 31"
proof -
  have M: "0 \<le> nMaxVal b" "nMaxVal b \<le> 32767"
    using nMaxVal_nonneg [of b] nMaxVal_le [of b 15] assms by simp_all
  have s16: "0 \<le> uint s16" "uint s16 \<le> 65535" using uint_lt2p [of s16] by simp_all
  have s8: "0 \<le> uint s8" "uint s8 \<le> 255" using uint_lt2p [of s8] by simp_all
  have "uint s16 * nMaxVal b \<le> 65535 * 32767"
    using s16 M by (intro mult_mono) simp_all
  then show "uint s16 * nMaxVal b + 32767 < 2 ^ 31" by simp
  have "min (uint s16) (nMaxVal b) * 65535 \<le> 32767 * 65535"
    using s16 M by (intro mult_mono) simp_all
  then show "min (uint s16) (nMaxVal b) * 65535 + nMaxVal b div 2 < 2 ^ 31"
    using M by simp
  have "uint s8 * nMaxVal b \<le> 255 * 32767"
    using s8 M by (intro mult_mono) simp_all
  then show "uint s8 * nMaxVal b + 127 < 2 ^ 31" by simp
  have "min (uint s8) (nMaxVal b) * 255 \<le> 255 * 255"
    using s8 M by (intro mult_mono) simp_all
  then show "min (uint s8) (nMaxVal b) * 255 + nMaxVal b div 2 < 2 ^ 31"
    using M by simp
qed

text \<open>
  On whole buffers: a buffer of samples of depth \<open>b\<close> that the encoding lambda has
  rescaled is turned back into itself by the decoding lambda.
\<close>

lemma encode_then_decode_buffer:
  assumes "1 \<le> b" "b < GDALGetDataTypeSize (buffer_type buf)"
      and "buffer_length buf = X * Y * n"
      and "\<forall>s \<in> set (sample_values buf). s \<le> 2 ^ b - 1"
      and "buffer_type buf = GDT_Byte \<or> buffer_type buf = GDT_UInt16"
  shows "\<exists>buf'. encode_Rescale X Y b buf n = Some buf' \<and> decode_Rescale X Y b buf' n = buf"
proof (cases buf)
  case (ByteSamples xs)
  have M: "nMaxVal b \<noteq> 0" using nMaxVal_pos [OF assms(1)] by simp
  have "map (decode_sample_Byte b \<circ> encode_sample_Byte b) xs = map id xs"
    using assms(1,2,4) ByteSamples by (intro map_cong) (simp_all add: decode_encode_Byte)
  then show ?thesis
    using assms(2,3) ByteSamples M by (simp add: for_each_sample_map)
next
  case (UInt16Samples xs)
  have M: "nMaxVal b \<noteq> 0" using nMaxVal_pos [OF assms(1)] by simp
  have "map (decode_sample_UInt16 b \<circ> encode_sample_UInt16 b) xs = map id xs"
    using assms(1,2,4) UInt16Samples by (intro map_cong) (simp_all add: decode_encode_UInt16)
  then show ?thesis
    using assms(2,3) UInt16Samples M by (simp add: for_each_sample_map)
next
  case (Float32Samples xs)
  then show ?thesis using assms(5) by simp
qed

text \<open>
  The sample values that the encoding lambda produces from samples of depth \<open>b\<close>: \<open>s\<close>
  goes to \<open>(s * max + (2^b - 1) div 2) div (2^b - 1)\<close>, where \<open>max\<close> is the largest value
  of the container type.
\<close>

lemma sample_values_encode_Rescale:
  assumes "1 \<le> b" "b < GDALGetDataTypeSize (buffer_type buf)"
      and "buffer_length buf = X * Y * n"
      and "\<forall>s \<in> set (sample_values buf). s \<le> 2 ^ b - 1"
      and "buffer_type buf = GDT_Byte \<or> buffer_type buf = GDT_UInt16"
  shows "map_option sample_values (encode_Rescale X Y b buf n) =
           Some (map (\<lambda>s. (s * (2 ^ GDALGetDataTypeSize (buffer_type buf) - 1) + (2 ^ b - 1) div 2)
                              div (2 ^ b - 1))
                   (sample_values buf))"
proof (cases buf)
  case (ByteSamples xs)
  have M: "nMaxVal b \<noteq> 0" using nMaxVal_pos [OF assms(1)] by simp
  have "\<forall>x \<in> set xs. uint x \<le> nMaxVal b"
    using assms(4) ByteSamples by (simp add: nMaxVal_def)
  then have "map (uint \<circ> encode_sample_Byte b) xs =
          map ((\<lambda>s. (s * 255 + (2 ^ b - 1) div 2) div (2 ^ b - 1)) \<circ> uint) xs"
    using assms(1) by (intro map_cong) (simp_all add: uint_encode_sample_Byte nMaxVal_def)
  then show ?thesis
    using assms(2,3) ByteSamples M by (simp add: for_each_sample_map)
next
  case (UInt16Samples xs)
  have M: "nMaxVal b \<noteq> 0" using nMaxVal_pos [OF assms(1)] by simp
  have "\<forall>x \<in> set xs. uint x \<le> nMaxVal b"
    using assms(4) UInt16Samples by (simp add: nMaxVal_def)
  then have "map (uint \<circ> encode_sample_UInt16 b) xs =
          map ((\<lambda>s. (s * 65535 + (2 ^ b - 1) div 2) div (2 ^ b - 1)) \<circ> uint) xs"
    using assms(1) by (intro map_cong) (simp_all add: uint_encode_sample_UInt16 nMaxVal_def)
  then show ?thesis
    using assms(2,3) UInt16Samples M by (simp add: for_each_sample_map)
next
  case (Float32Samples xs)
  then show ?thesis using assms(5) by simp
qed

text \<open>
  Claim C4, as amended.  For every declared bit depth \<open>b\<close> in \<open>{1..7}\<close> over an 8-bit
  container, and in \<open>{9..15}\<close> over a 16-bit container, and every buffer of samples \<open>s\<close>
  in \<open>[0, 2^b - 1]\<close>: the encode-side \<^verbatim>\<open>Rescale\<close> expands each \<open>s\<close> to
  \<open>(s * (2^width - 1) + (2^b - 1) div 2) div (2^b - 1)\<close>, and the decode-side \<^verbatim>\<open>Rescale\<close>
  applied to the result (the order of a file that is written and read back) gives the
  buffer back: each value deviates from \<open>s\<close> by at most one unit, and in fact by none.
\<close>

theorem rescale_round_trip:
  assumes "(buffer_type buf = GDT_Byte \<and> b \<in> {1..7}) \<or>
           (buffer_type buf = GDT_UInt16 \<and> b \<in> {9..15})"
      and "buffer_length buf = X * Y * n"
      and "\<forall>s \<in> set (sample_values buf). s \<le> 2 ^ b - 1"
  shows "\<exists>enc. encode_Rescale X Y b buf n = Some enc \<and>
           sample_values enc =
             map (\<lambda>s. (s * (2 ^ GDALGetDataTypeSize (buffer_type buf) - 1) + (2 ^ b - 1) div 2)
                         div (2 ^ b - 1))
               (sample_values buf) \<and>
           decode_Rescale X Y b enc n = buf \<and>
           list_all2 (\<lambda>r s. \<bar>r - s\<bar> \<le> 1)
             (sample_values (decode_Rescale X Y b enc n)) (sample_values buf)"
proof -
  have b: "1 \<le> b" "b < GDALGetDataTypeSize (buffer_type buf)"
    and ty: "buffer_type buf = GDT_Byte \<or> buffer_type buf = GDT_UInt16"
    using assms(1) by auto
  from encode_then_decode_buffer [OF b assms(2,3) ty]
  obtain enc where enc: "encode_Rescale X Y b buf n = Some enc"
      "decode_Rescale X Y b enc n = buf"
    by (elim exE conjE)
  have "sample_values enc =
          map (\<lambda>s. (s * (2 ^ GDALGetDataTypeSize (buffer_type buf) - 1) + (2 ^ b - 1) div 2)
                      div (2 ^ b - 1))
            (sample_values buf)"
    using sample_values_encode_Rescale [OF b assms(2,3) ty] enc(1) by simp
  moreover have "list_all2 (\<lambda>r s. \<bar>r - s\<bar> \<le> 1)
             (sample_values (decode_Rescale X Y b enc n)) (sample_values buf)"
    unfolding enc(2) by (simp add: list_all2_same)
  ultimately show ?thesis using enc by simp
qed

theorem rescale_round_trip_witness:
  "map_option (\<lambda>enc. (enc, decode_Rescale 3 1 4 enc 1))
     (encode_Rescale 3 1 4 (ByteSamples [9, 15, 0]) 1) =
     Some (ByteSamples [153, 255, 0], ByteSamples [9, 15, 0]) \<and>
   map_option (\<lambda>enc. (enc, decode_Rescale 1 1 12 enc 2))
     (encode_Rescale 1 1 12 (UInt16Samples [1000, 4095]) 2) =
     Some (UInt16Samples [16004, 65535], UInt16Samples [1000, 4095])"
  using rescale_round_trip [of "ByteSamples [9, 15, 0]" 4 3 1 1]
        rescale_round_trip [of "UInt16Samples [1000, 4095]" 12 1 1 2]
  by (simp add: for_each_sample_map decode_sample_Byte_def encode_sample_Byte_def
      decode_sample_UInt16_def encode_sample_UInt16_def nMaxVal_def)

text \<open>
  In the order in which the claim was first stated, with the decode-side \<^verbatim>\<open>Rescale\<close>
  applied first and the encode-side \<^verbatim>\<open>Rescale\<close> applied to its result, the samples 15
  and 8 of depth 4 come back as 17 and 0.
\<close>

theorem rescale_encode_after_decode_counterexample:
  "(4::nat) \<in> {1..7} \<and> sample_values (ByteSamples [15, 8]) = [15, 8] \<and>
   (15::int) \<le> 2 ^ 4 - 1 \<and> (8::int) \<le> 2 ^ 4 - 1 \<and>
   map_option sample_values
     (encode_Rescale 2 1 4 (decode_Rescale 2 1 4 (ByteSamples [15, 8]) 1) 1) = Some [17, 0] \<and>
   \<not> \<bar>17 - 15\<bar> \<le> (1::int) \<and> \<not> \<bar>0 - 8\<bar> \<le> (1::int)"
  by (simp add: for_each_sample_map decode_sample_Byte_def encode_sample_Byte_def nMaxVal_def)

lemma sample_values_decode_Rescale:
  assumes "buffer_type buf = GDT_Byte \<or> buffer_type buf = GDT_UInt16"
      and "bits < GDALGetDataTypeSize (buffer_type buf)"
      and "buffer_length buf = X * Y * n"
  shows "sample_values (decode_Rescale X Y bits buf n) =
           map (compress_sample (buffer_type buf) bits) (sample_values buf)"
    and "buffer_type (decode_Rescale X Y bits buf n) = buffer_type buf"
  using assms
  by (cases buf;
      simp add: for_each_sample_map compress_sample_def container_max_def
        uint_decode_sample_Byte uint_decode_sample_UInt16 nMaxVal_def)+

lemma compress_sample_nearest:
  assumes "dt = GDT_Byte \<or> dt = GDT_UInt16" "0 \<le> s" "s \<le> container_max dt"
  shows "0 \<le> compress_sample dt b s" "compress_sample dt b s \<le> 2 ^ b - 1"
    "2 * \<bar>container_max dt * compress_sample dt b s - s * (2 ^ b - 1)\<bar> < container_max dt"
proof -
  have T: "0 < container_max dt" "odd (container_max dt)"
    using assms(1) by (auto simp: container_max_def)
  have M: "(0::int) \<le> 2 ^ b - 1" by simp
  show "0 \<le> compress_sample dt b s" "compress_sample dt b s \<le> 2 ^ b - 1"
    "2 * \<bar>container_max dt * compress_sample dt b s - s * (2 ^ b - 1)\<bar> < container_max dt"
    unfolding compress_sample_def
    using dec_nearest [OF T assms(2,3) M] by simp_all
qed

text \<open>
  Claim C3, as amended.  On decode, when the declared bit depth \<open>b\<close> is strictly less than
  the container sample width (8 for Byte, 16 for UInt16), the rescaling step maps every
  sample \<open>s\<close> of the container range \<open>[0, 2^width - 1]\<close> to
  \<open>(s * (2^b - 1) + half) div (2^width - 1)\<close>, where the bias \<open>half\<close> is half the container
  maximum (127 or 32767).  The result lies in \<open>[0, 2^b - 1]\<close> and is the integer nearest to
  \<open>s * (2^b - 1) / (2^width - 1)\<close>.  The step is applied to every sample of the primary
  buffer and of each extra-channel buffer.
\<close>

theorem decode_rescale_compresses:
  assumes "dt = GDT_Byte \<or> dt = GDT_UInt16"
      and "bits < GDALGetDataTypeSize dt"
      and "buffer_type (output_data b) = dt"
      and "\<forall>ch \<in> set (extra_channels b). buffer_type ch = dt"
      and "buffer_length (output_data b) = X * Y * (nb - nExtra)"
      and "\<forall>ch \<in> set (extra_channels b). buffer_length ch = X * Y"
  shows "sample_values (output_data (GetDecodedImage_rescale X Y nb nExtra bits dt b)) =
           map (compress_sample dt bits) (sample_values (output_data b)) \<and>
         map sample_values (extra_channels (GetDecodedImage_rescale X Y nb nExtra bits dt b)) =
           map (map (compress_sample dt bits) \<circ> sample_values) (extra_channels b) \<and>
         (\<forall>s. 0 \<le> s \<and> s \<le> 2 ^ GDALGetDataTypeSize dt - 1 \<longrightarrow>
            compress_sample dt bits s =
              (s * (2 ^ bits - 1) + (2 ^ GDALGetDataTypeSize dt - 1) div 2)
                 div (2 ^ GDALGetDataTypeSize dt - 1) \<and>
            0 \<le> compress_sample dt bits s \<and> compress_sample dt bits s \<le> 2 ^ bits - 1 \<and>
            2 * \<bar>(2 ^ GDALGetDataTypeSize dt - 1) * compress_sample dt bits s
                   - s * (2 ^ bits - 1)\<bar> < 2 ^ GDALGetDataTypeSize dt - 1)"
proof (intro conjI allI impI)
  show "sample_values (output_data (GetDecodedImage_rescale X Y nb nExtra bits dt b)) =
           map (compress_sample dt bits) (sample_values (output_data b))"
    using assms(1,2,3,5)
    by (simp add: GetDecodedImage_rescale_def sample_values_decode_Rescale(1))
  show "map sample_values (extra_channels (GetDecodedImage_rescale X Y nb nExtra bits dt b)) =
           map (map (compress_sample dt bits) \<circ> sample_values) (extra_channels b)"
    using assms(1,2,4,6)
    by (simp add: GetDecodedImage_rescale_def sample_values_decode_Rescale(1) [where n = 1, simplified])
next
  fix s :: int
  assume s: "0 \<le> s \<and> s \<le> 2 ^ GDALGetDataTypeSize dt - 1"
  show "compress_sample dt bits s =
              (s * (2 ^ bits - 1) + (2 ^ GDALGetDataTypeSize dt - 1) div 2)
                 div (2 ^ GDALGetDataTypeSize dt - 1)"
    by (simp add: compress_sample_def container_max_def)
  show "0 \<le> compress_sample dt bits s" "compress_sample dt bits s \<le> 2 ^ bits - 1"
     "2 * \<bar>(2 ^ GDALGetDataTypeSize dt - 1) * compress_sample dt bits s
                   - s * (2 ^ bits - 1)\<bar> < 2 ^ GDALGetDataTypeSize dt - 1"
    using compress_sample_nearest [OF assms(1), of s bits] s
    by (simp_all add: container_max_def)
qed

theorem decode_rescale_compresses_witness:
  "sample_values (output_data (GetDecodedImage_rescale 2 1 2 1 4 GDT_Byte
      \<lparr> output_data = ByteSamples [255, 17], extra_channels = [ByteSamples [136, 0]] \<rparr>)) = [15, 1] \<and>
   map sample_values (extra_channels (GetDecodedImage_rescale 2 1 2 1 4 GDT_Byte
      \<lparr> output_data = ByteSamples [255, 17], extra_channels = [ByteSamples [136, 0]] \<rparr>)) = [[8, 0]] \<and>
   compress_sample GDT_Byte 4 255 = 15"
  using decode_rescale_compresses [of GDT_Byte 4
      "\<lparr> output_data = ByteSamples [255, 17], extra_channels = [ByteSamples [136, 0]] \<rparr>"
      2 1 2 1]
  by (simp add: compress_sample_def container_max_def)

text \<open>
  The claim as first stated has the direction reversed: it expects the decode step to
  expand a sample \<open>s \<le> 2^b - 1\<close> to \<open>round (s * (2^width - 1) / (2^b - 1))\<close>.  For
  \<open>b = 4\<close> and \<open>s = 15\<close> that would be 255; the code yields 1.
\<close>

theorem decode_rescale_expand_counterexample:
  "(15::int) \<le> 2 ^ 4 - 1 \<and>
   sample_values (output_data (GetDecodedImage_rescale 1 1 1 0 4 GDT_Byte
      \<lparr> output_data = ByteSamples [15], extra_channels = [] \<rparr>)) = [1] \<and>
   map (spec_expand 8 4) [15] = [255]"
  by (simp add: GetDecodedImage_rescale_def for_each_sample_def decode_sample_Byte_def
      nMaxVal_def spec_expand_def)

section \<open>Properties of the compression settings\<close>

lemma to_float_tenth: "to_float (1 / 10) = 13421773 / 134217728"
  by code_simp

lemma quality_30_value:
  "to_float (dadd (to_double (1 / 10)) (dmul (dsub 100 30) (to_double (9 / 100)))) = 13421773 / 2097152"
  by code_simp

text \<open>
  Claim C1, as amended.  With \<^verbatim>\<open>QUALITY=100\<close> and neither \<^verbatim>\<open>DISTANCE\<close> nor
  \<^verbatim>\<open>LOSSLESS\<close>, the quality formula yields 0, and the distance configured on the
  encoder is \<^verbatim>\<open>0.1f\<close>, the \<^verbatim>\<open>float\<close> nearest to one tenth.
\<close>

theorem quality_100_distance:
  "CreateCopy_settings pow \<lparr> LOSSLESS = None, DISTANCE = None, QUALITY = Some 100 \<rparr> =
     Inr (SetFrameDistance (to_float (1 / 10))) \<and>
   quality_to_distance pow 100 = 0 \<and>
   to_float (1 / 10) = 13421773 / 134217728"
  by (simp add: CreateCopy_settings_def bLossless_def quality_to_distance_def to_float_tenth)

text \<open>The configured distance is not 0.\<close>

theorem quality_100_distance_counterexample:
  "CreateCopy_settings (\<lambda>x y. 1) \<lparr> LOSSLESS = None, DISTANCE = None, QUALITY = Some 100 \<rparr> \<noteq>
     Inr (SetFrameDistance 0)"
  by (simp add: CreateCopy_settings_def bLossless_def quality_to_distance_def to_float_tenth)

text \<open>
  Claim C2, as amended.  With \<^verbatim>\<open>QUALITY=30\<close> and neither \<^verbatim>\<open>DISTANCE\<close> nor
  \<^verbatim>\<open>LOSSLESS\<close>, the computed distance is approximately 6.4, the upper end of the linear
  segment \<open>0.1 + (100 - quality) * 0.09\<close> (its lower end, 0.1, belongs to qualities just
  below 100).
\<close>

theorem quality_30_distance:
  "CreateCopy_settings pow \<lparr> LOSSLESS = None, DISTANCE = None, QUALITY = Some 30 \<rparr> =
     Inr (SetFrameDistance (13421773 / 2097152)) \<and>
   \<bar>13421773 / 2097152 - 64 / 10 :: rat\<bar> < 1 / 1000000"
  by (simp add: CreateCopy_settings_def bLossless_def quality_to_distance_def to_float_tenth
      quality_30_value)

text \<open>The distance for \<^verbatim>\<open>QUALITY=30\<close> is more than 6 away from 0.1.\<close>

theorem quality_30_distance_counterexample:
  "CreateCopy_settings (\<lambda>x y. 1) \<lparr> LOSSLESS = None, DISTANCE = None, QUALITY = Some 30 \<rparr> =
     Inr (SetFrameDistance (13421773 / 2097152)) \<and>
   6 < \<bar>13421773 / 2097152 - 1 / 10 :: rat\<bar>"
  by (simp add: CreateCopy_settings_def bLossless_def quality_to_distance_def to_float_tenth
      quality_30_value)

text \<open>
  Claim C10.  In lossy mode without a \<^verbatim>\<open>DISTANCE\<close> or \<^verbatim>\<open>QUALITY\<close> option (that is,
  \<^verbatim>\<open>LOSSLESS=NO\<close> alone), the distance configured on the encoder is exactly 1.0.
\<close>

theorem lossy_default_distance:
  assumes "LOSSLESS opts = Some False" "DISTANCE opts = None" "QUALITY opts = None"
  shows "CreateCopy_settings pow opts = Inr (SetFrameDistance 1)"
  using assms
  by (simp add: CreateCopy_settings_def bLossless_def to_float_tenth)

theorem lossy_default_distance_witness:
  "CreateCopy_settings (\<lambda>x y. 1) \<lparr> LOSSLESS = Some False, DISTANCE = None, QUALITY = None \<rparr> =
     Inr (SetFrameDistance 1)"
  using lossy_default_distance
    [of "\<lparr> LOSSLESS = Some False, DISTANCE = None, QUALITY = None \<rparr>" "\<lambda>x y. 1"]
  by simp

section \<open>Properties of the marker-segment code\<close>

lemma insert_marker_cases:
  "insert_marker sig payload jpeg_bytes = Some out \<Longrightarrow>
     out = jpeg_bytes \<or>
     (\<not> snd (scan_markers sig jpeg_bytes 2 0) \<and> 0 < fst (scan_markers sig jpeg_bytes 2 0) \<and>
      out = take (fst (scan_markers sig jpeg_bytes 2 0)) jpeg_bytes @
            [0xFF, 0xE1, word_of_nat ((2 + length sig + length payload) div 256),
             word_of_nat ((2 + length sig + length payload) mod 256)] @
            sig @ payload @ drop (fst (scan_markers sig jpeg_bytes 2 0)) jpeg_bytes)"
  by (auto simp: insert_marker_def Let_def split: prod.splits if_splits)

lemma xmp_spliced_only_if:
  assumes "reinsert_markers CODESTREAM_WITHOUT_EXIF exif_box xmp jpeg_bytes = Some out"
      and "out \<noteq> jpeg_bytes"
  shows "xmp \<noteq> [] \<and> 2 + length APP1_XMP_SIGNATURE + length xmp \<le> 65535 \<and>
         \<not> snd (scan_markers APP1_XMP_SIGNATURE jpeg_bytes 2 0) \<and>
         0 < fst (scan_markers APP1_XMP_SIGNATURE jpeg_bytes 2 0)"
  using assms insert_marker_cases [of APP1_XMP_SIGNATURE xmp jpeg_bytes out]
  by (auto simp: reinsert_markers_def Let_def split: if_splits)

text \<open>
  Claim C7 says that a marker segment is spliced in only if the retained metadata of its
  kind exists and is non-empty.  The XMP splice checks \<^verbatim>\<open>!m_osXMP.empty()\<close>
  (\<open>xmp_spliced_only_if\<close>); the EXIF splice has no such check.  For a dataset that
  retained no EXIF box, a request for \<^verbatim>\<open>CODESTREAM\<close> on a reconstructed bitstream with a
  JFIF segment and no EXIF segment yields a bitstream with a new APP1 segment
  \<^verbatim>\<open>FF E1 00 08 "Exif\0\0"\<close> that carries no payload.
\<close>

theorem empty_exif_marker_inserted:
  "reinsert_markers CODESTREAM [] []
     [0xFF, 0xD8, 0xFF, 0xE0, 0x00, 0x10, 0x4A, 0x46, 0x49, 0x46, 0x00, 0x01, 0x01, 0x00,
      0x00, 0x01, 0x00, 0x01, 0x00, 0x00, 0xFF, 0xDA, 0x00, 0x02, 0xFF, 0xD9] =
   Some [0xFF, 0xD8, 0xFF, 0xE0, 0x00, 0x10, 0x4A, 0x46, 0x49, 0x46, 0x00, 0x01, 0x01, 0x00,
         0x00, 0x01, 0x00, 0x01, 0x00, 0x00,
         0xFF, 0xE1, 0x00, 0x08, 0x45, 0x78, 0x69, 0x66, 0x00, 0x00,
         0xFF, 0xDA, 0x00, 0x02, 0xFF, 0xD9]"
  by (simp add: reinsert_markers_def insert_marker_def scan_markers.simps INT_MAX_def
      EXIF_SIGNATURE_def JFIF_SIGNATURE_def memcmp_eq_def Let_def)


lemma length_segment_bytes: "length (segment_bytes seg) = length (snd seg) + 4"
  by (cases seg) simp



lemma le32_le32_bytes:
  assumes "n < 2 ^ 32"
  shows "le32 (le32_bytes n) = n"
proof -
  define n1 where "n1 = n div 256"
  define n2 where "n2 = n1 div 256"
  define n3 where "n3 = n2 div 256"
  have d2: "n div 65536 = n2" unfolding n2_def n1_def by (simp add: div_mult2_eq [symmetric])
  have d3: "n div 16777216 = n3"
    unfolding n3_def n2_def n1_def by (simp add: div_mult2_eq [symmetric])
  have "n3 < 256" using assms unfolding d3 [symmetric] by simp
  then have m3: "n3 mod 256 = n3" by simp
  have e0: "n = 256 * n1 + n mod 256" unfolding n1_def by simp
  have e1: "n1 = 256 * n2 + n1 mod 256" unfolding n2_def by simp
  have e2: "n2 = 256 * n3 + n2 mod 256" unfolding n3_def by simp
  have "n mod 256 + 256 * (n1 mod 256) + 65536 * (n2 mod 256) + 16777216 * (n3 mod 256) = n"
    unfolding m3 using e0 e1 e2 by linarith
  then show ?thesis
    by (simp add: le32_def le32_bytes_def unat_of_nat d2 d3 n1_def [symmetric])
qed

lemma remove_mask_trailing:
  assumes "2 < length img" "length img < 2 ^ 32"
      and "length msk + 4 \<le> length img"
      and "img ! (length img - 2) = 0xFF" "img ! (length img - 1) = 0xD9"
  shows "remove_mask (img @ msk @ le32_bytes (length img)) = img"
proof -
  have l4: "length (le32_bytes (length img)) = 4" by (simp add: le32_bytes_def)
  have "drop (length (img @ msk @ le32_bytes (length img)) - 4) (img @ msk @ le32_bytes (length img))
          = le32_bytes (length img)"
    by (simp add: l4)
  moreover have "(length img + (length msk + 4)) div 2 \<le> length img"
    using assms(3) by simp
  moreover have "(img @ msk @ le32_bytes (length img)) ! (length img - 2) = 0xFF"
       "(img @ msk @ le32_bytes (length img)) ! (length img - 1) = 0xD9"
    using assms(1,4,5) by (auto simp: nth_append)
  ultimately show ?thesis
    using assms(1,2)
    by (auto simp: remove_mask_def Let_def le32_le32_bytes l4)
qed





section \<open>Properties of \<^verbatim>\<open>Open\<close>\<close>

lemma process_pending_box_idle:
  "osCurrentBox st = [] \<Longrightarrow> process_pending_box EXIFExtract rel st = st"
  by (simp add: process_pending_box_def)

lemma abyBoxBuffer_size_process_pending_box:
  "abyBoxBuffer_size (process_pending_box EXIFExtract rel st) = abyBoxBuffer_size st"
  by (simp add: process_pending_box_def ProcessCurrentBox_def Let_def)

lemma Open_round_retained_nothing:
  assumes "retained_nothing st" "no_box_within_ceiling nMax ev"
  shows "case Open_round nMax EXIFExtract st ev of
           Continue st' \<Rightarrow> retained_nothing st' | Break st' \<Rightarrow> retained_nothing st'
         | Return e \<Rightarrow> True"
proof (cases ev)
  case (JXL_DEC_BOX rel box_type nRawSize alloc_ok set_ok)
  then show ?thesis
    using assms
    by (auto simp: retained_nothing_def no_box_within_ceiling_def process_pending_box_def
        on_box_def Let_def split: option.splits if_splits)
next
  case (JXL_DEC_BASIC_INFO res)
  then show ?thesis
    using assms
    by (auto simp: retained_nothing_def on_basic_info_def Let_def split: option.splits)
next
  case (JXL_DEC_BOX_NEED_MORE_OUTPUT n a s)
  then show ?thesis
    using assms
    by (auto simp: retained_nothing_def on_box_need_more_output_def Let_def)
qed (use assms in \<open>auto simp: retained_nothing_def process_pending_box_def\<close>)

lemma run_loop_retained_nothing:
  assumes "retained_nothing st" "list_all (no_box_within_ceiling nMax) evs"
  shows "case run_loop (Open_round nMax EXIFExtract) st evs of
           Continue st' \<Rightarrow> retained_nothing st' | Break st' \<Rightarrow> retained_nothing st'
         | Return e \<Rightarrow> True"
  using assms
proof (induction evs arbitrary: st)
  case Nil
  then show ?case by simp
next
  case (Cons ev evs)
  then have ev: "no_box_within_ceiling nMax ev" and evs: "list_all (no_box_within_ceiling nMax) evs"
    by simp_all
  show ?case
  proof (cases "Open_round nMax EXIFExtract st ev")
    case (Continue st1)
    then have "retained_nothing st1"
      using Open_round_retained_nothing [OF Cons.prems(1) ev, of EXIFExtract] by simp
    then show ?thesis using Cons.IH [OF _ evs, of st1] Continue by simp
  next
    case (Break st1)
    then show ?thesis
      using Open_round_retained_nothing [OF Cons.prems(1) ev, of EXIFExtract] by simp
  next
    case (Return e)
    then show ?thesis by simp
  qed
qed

text \<open>
  Claim C6.  When a recognized box (\<^verbatim>\<open>xml \<close>, \<^verbatim>\<open>Exif\<close>, \<^verbatim>\<open>jumb\<close>) reports a raw size above
  the ceiling, the round processes the box that was pending before (if any), gives a
  warning, leaves no box pending and goes on with the loop; the box buffer keeps its size,
  and with no box pending the state is otherwise unchanged.  A stream in which no recognized
  box is within the ceiling leaves the dataset without XMP, EXIF and georeferencing
  payload.
\<close>

theorem oversize_box_skipped:
  assumes "szType = ''xml '' \<or> szType = ''Exif'' \<or> szType = ''jumb''"
      and "nMax < nRawSize"
  shows "Open_round nMax EXIFExtract st (JXL_DEC_BOX rel (Some szType) nRawSize alloc_ok set_ok) =
           Continue ((process_pending_box EXIFExtract rel st)
             \<lparr> osCurrentBox := [],
               warnings := warnings (process_pending_box EXIFExtract rel st) @
                 [Box_exceeds_MAX_BOX_BUFFER_SIZE szType nRawSize nMax] \<rparr>) \<and>
         abyBoxBuffer_size (process_pending_box EXIFExtract rel st) = abyBoxBuffer_size st \<and>
         (osCurrentBox st = [] \<longrightarrow> process_pending_box EXIFExtract rel st = st) \<and>
         (\<forall>evs st'. list_all (no_box_within_ceiling nMax) evs \<and>
              Open nMax EXIFExtract evs = Some (Inr st') \<longrightarrow>
              m_osXMP st' = [] \<and> m_abyEXIFBox st' = [] \<and> m_aosEXIFMetadata st' = [] \<and>
              abyJumbBoxBuffer st' = [])"
proof (intro conjI allI impI)
  show "Open_round nMax EXIFExtract st (JXL_DEC_BOX rel (Some szType) nRawSize alloc_ok set_ok) =
           Continue ((process_pending_box EXIFExtract rel st)
             \<lparr> osCurrentBox := [],
               warnings := warnings (process_pending_box EXIFExtract rel st) @
                 [Box_exceeds_MAX_BOX_BUFFER_SIZE szType nRawSize nMax] \<rparr>)"
    using assms by (auto simp: on_box_def Let_def)
  show "abyBoxBuffer_size (process_pending_box EXIFExtract rel st) = abyBoxBuffer_size st"
    by (rule abyBoxBuffer_size_process_pending_box)
  show "process_pending_box EXIFExtract rel st = st" if "osCurrentBox st = []"
    using that by (rule process_pending_box_idle)
next
  fix evs st'
  assume a: "list_all (no_box_within_ceiling nMax) evs \<and> Open nMax EXIFExtract evs = Some (Inr st')"
  have init: "retained_nothing initial_open_state"
    by (simp add: retained_nothing_def initial_open_state_def)
  from a obtain st1 where st1: "run_loop (Open_round nMax EXIFExtract) initial_open_state evs = Break st1"
      and st': "st' = st1\<lparr> nBands := l_nBands st1 \<rparr>"
    by (auto simp: Open_def split: round.splits if_splits)
  have "retained_nothing st1"
    using run_loop_retained_nothing [OF init, of nMax evs EXIFExtract] a st1 by simp
  then show "m_osXMP st' = []" "m_abyEXIFBox st' = []" "m_aosEXIFMetadata st' = []"
    "abyJumbBoxBuffer st' = []"
    by (simp_all add: st' retained_nothing_def)
qed

theorem oversize_box_skipped_witness:
  "Open_round 100000000 (\<lambda>b. []) initial_open_state
     (JXL_DEC_BOX no_release (Some ''xml '') 200000000 True True) =
     Continue (initial_open_state
       \<lparr> warnings := [Box_exceeds_MAX_BOX_BUFFER_SIZE ''xml '' 200000000 100000000] \<rparr>) \<and>
   (case Open 100000000 (\<lambda>b. [])
           [JXL_DEC_BASIC_INFO (Some gray8_info),
            JXL_DEC_BOX no_release (Some ''xml '') 200000000 True True,
            JXL_DEC_SUCCESS no_release] of
      Some (Inr st') \<Rightarrow>
        m_osXMP st' = [] \<and> m_aosEXIFMetadata st' = [] \<and> abyJumbBoxBuffer st' = [] \<and>
        abyBoxBuffer_size st' = 1024 * 1024 \<and>
        warnings st' = [Box_exceeds_MAX_BOX_BUFFER_SIZE ''xml '' 200000000 100000000]
    | _ \<Rightarrow> False)"
  using oversize_box_skipped
    [of "''xml ''" 100000000 200000000 "\<lambda>b. []" initial_open_state no_release True True]
  by (simp add: Open_def on_basic_info_def on_box_def process_pending_box_def gray8_info_def
      initial_open_state_def INT_MAX_def no_release_def Let_def)


section \<open>Properties of the pixel access\<close>

lemma run_loop_append:
  "run_loop step s (evs @ [ev]) =
     (case run_loop step s evs of Continue s' \<Rightarrow> step s' ev | Break s' \<Rightarrow> Break s' | Return e \<Rightarrow> Return e)"
  by (induction evs arbitrary: s) (auto split: round.splits)

text \<open>
  Claim C9, as amended.  When the decoder needs more input and the read returns zero
  bytes: during the full-image decode, \<^verbatim>\<open>GetDecodedImage(void *, size_t)\<close> returns with the
  failure marker set; during \<^verbatim>\<open>Open\<close>, the input is closed and the loop is left without
  a failure, so that \<^verbatim>\<open>Open\<close> succeeds if the basic info was reached before, and fails
  only if it was not.
\<close>

theorem zero_byte_read_ends_loops:
  "(subscribe_ok session \<and> events session = evs @ [JXL_DEC_NEED_MORE_INPUT 0 set_ok] \<and>
    run_loop (counted_round n) (ds\<lparr> engine_calls := engine_calls ds + 1 \<rparr>) evs = Continue ds1
    \<longrightarrow> (\<exists>ds2 buf. GetDecodedImage_into session pData n ds = Some (ds2, buf) \<and>
                     m_bDecodingFailed ds2)) \<and>
   (run_loop (Open_round nMax EXIFExtract) initial_open_state evs' = Continue st
    \<longrightarrow> Open nMax EXIFExtract (evs' @ [JXL_DEC_NEED_MORE_INPUT 0 set_ok]) =
          (if bGotInfo st then Some (Inr (st\<lparr> input_closed := True, nBands := l_nBands st \<rparr>))
           else Some (Inl Did_not_get_basic_info)))"
  by (auto simp: GetDecodedImage_into_def Open_def run_loop_append counted_round_def Let_def)

theorem zero_byte_read_ends_loops_witness:
  "map_option (m_bDecodingFailed \<circ> fst)
     (GetDecodedImage_into truncated_session (ByteSamples [0]) 1 opened_gray8) = Some True \<and>
   map_option isl
     (Open 100000000 (\<lambda>b. []) ([] @ [JXL_DEC_NEED_MORE_INPUT 0 True])) = Some True"
  using zero_byte_read_ends_loops
    [of truncated_session "[JXL_DEC_NEED_MORE_INPUT 5 True]" True 1 opened_gray8
        "opened_gray8\<lparr> engine_calls := 2 \<rparr>" "ByteSamples [0]"
        100000000 "\<lambda>b. []" "[]" initial_open_state]
  by (auto simp: truncated_session_def opened_gray8_def counted_round_def initial_open_state_def)

text \<open>
  \<^verbatim>\<open>Open\<close> succeeds on a stream that gives the basic info and then no more bytes although
  the decoder asks for more.
\<close>

theorem zero_byte_read_open_succeeds_counterexample:
  "map_option isl
     (Open 100000000 (\<lambda>b. [])
        [JXL_DEC_BASIC_INFO (Some gray8_info), JXL_DEC_NEED_MORE_INPUT 0 True]) = Some False"
  by (simp add: Open_def on_basic_info_def gray8_info_def initial_open_state_def INT_MAX_def)

lemma GetDecodedImage_failed:
  "m_bDecodingFailed ds \<Longrightarrow> GetDecodedImage session ds = Some ds"
  by (simp add: GetDecodedImage_def)

lemma whole_image_band_map:
  "whole_image ds (req\<lparr> panBandMap := m, nBandSpace := k \<rparr>) = whole_image ds req"
  by (simp add: whole_image_def)

lemma serve_failed:
  assumes "m_bDecodingFailed ds" "served_here ds r"
  shows "\<exists>err. serve session r ds = Returns err ds \<and>
           (\<not> is_block_read r \<longrightarrow> err = CE_Failure) \<and>
           (buffer_length (m_abyImage ds) = 0 \<longrightarrow> err = CE_Failure)"
proof (cases r)
  case (Block_read nBand nBlockYOff)
  then show ?thesis
    using assms(1) by (simp add: IReadBlock_def GetDecodedImage_failed is_block_read_def)
next
  case (Dataset_read req pData)
  then have "whole_image ds req" using assms(2) by (simp add: served_here_def)
  then show ?thesis
    using assms(1) Dataset_read by (simp add: IRasterIO_def is_block_read_def)
next
  case (Band_read nBand req pData)
  then have "whole_image ds req" using assms(2) by (simp add: served_here_def)
  then show ?thesis
    using assms(1) Band_read
    by (simp add: band_IRasterIO_def IRasterIO_def is_block_read_def whole_image_band_map)
qed

lemma serve_all_failed:
  assumes "m_bDecodingFailed ds" "list_all (\<lambda>sr. served_here ds (snd sr)) rs"
  shows "serve_all rs ds = Some (map (status_of ds) rs, ds)"
  using assms(2)
proof (induction rs)
  case Nil
  then show ?case by simp
next
  case (Cons sr rs)
  obtain session r where sr: "sr = (session, r)" by (cases sr)
  from Cons.prems have r: "served_here ds r" and rs: "list_all (\<lambda>sr. served_here ds (snd sr)) rs"
    by (simp_all add: sr)
  from serve_failed [OF assms(1) r, of session]
  obtain err where err: "serve session r ds = Returns err ds" by (elim exE conjE)
  then have "status_of ds sr = err" by (simp add: status_of_def sr)
  then show ?case
    using Cons.IH [OF rs] err by (simp add: sr)
qed

lemma status_of_failed:
  assumes "m_bDecodingFailed ds" "served_here ds (snd sr)"
  shows "\<not> is_block_read (snd sr) \<longrightarrow> status_of ds sr = CE_Failure"
    and "buffer_length (m_abyImage ds) = 0 \<longrightarrow> status_of ds sr = CE_Failure"
proof -
  from serve_failed [OF assms, of "fst sr"]
  obtain err where err: "serve (fst sr) (snd sr) ds = Returns err ds"
      "\<not> is_block_read (snd sr) \<longrightarrow> err = CE_Failure"
      "buffer_length (m_abyImage ds) = 0 \<longrightarrow> err = CE_Failure"
    by (elim exE conjE)
  from err(1) have "status_of ds sr = err" by (simp add: status_of_def)
  with err(2,3) show "\<not> is_block_read (snd sr) \<longrightarrow> status_of ds sr = CE_Failure"
    and "buffer_length (m_abyImage ds) = 0 \<longrightarrow> status_of ds sr = CE_Failure"
    by simp_all
qed

text \<open>
  Once the failure marker is set, every sequence of block reads and whole-image reads
  (through the dataset or through a band) returns with the dataset unchanged: the marker
  stays set and the decoder is not called.  Every whole-image read fails, and every block
  read fails when \<^verbatim>\<open>m_abyImage\<close> is empty.
\<close>

lemma failure_marker_absorbs:
  assumes "m_bDecodingFailed ds"
      and "list_all (\<lambda>sr. served_here ds (snd sr)) rs"
  shows "\<exists>errs. serve_all rs ds = Some (errs, ds) \<and> length errs = length rs \<and>
           (\<forall>i < length rs. \<not> is_block_read (snd (rs ! i)) \<longrightarrow> errs ! i = CE_Failure) \<and>
           (buffer_length (m_abyImage ds) = 0 \<longrightarrow> errs = replicate (length rs) CE_Failure)"
proof (intro exI conjI allI impI)
  show "serve_all rs ds = Some (map (status_of ds) rs, ds)"
    using assms by (rule serve_all_failed)
  show "length (map (status_of ds) rs) = length rs" by simp
next
  fix i assume i: "i < length rs" and nb: "\<not> is_block_read (snd (rs ! i))"
  have "served_here ds (snd (rs ! i))" using assms(2) i by (simp add: list_all_length)
  then show "map (status_of ds) rs ! i = CE_Failure"
    using status_of_failed(1) [OF assms(1), of "rs ! i"] nb i by simp
next
  assume empty: "buffer_length (m_abyImage ds) = 0"
  have "\<forall>sr \<in> set rs. status_of ds sr = CE_Failure"
    using status_of_failed(2) [OF assms(1)] assms(2) empty by (simp add: list_all_iff)
  then show "map (status_of ds) rs = replicate (length rs) CE_Failure"
    by (simp add: map_replicate_const [symmetric] cong: map_cong)
qed

text \<open>
  A failure in the decoding loop, met by the cached decode, sets the marker and clears
  \<^verbatim>\<open>m_abyImage\<close>; when the image buffer itself cannot be allocated, the marker is set and
  \<^verbatim>\<open>m_abyImage\<close> is still empty.  In both cases the block read fails.
\<close>

lemma decoder_failure_clears_image:
  "IReadBlock error_session 1 0 opened_gray8 =
     Returns CE_Failure (opened_gray8\<lparr> m_bDecodingFailed := True, engine_calls := 2 \<rparr>)"
  by (simp add: opened_gray8_def error_session_def IReadBlock_def GetDecodedImage_def
      GetDecodedImage_into_def counted_round_def first_failing_alloc_def
      GDALGetDataTypeSizeBytes_def SIZE_MAX_def buffer_bytes_def GetDecodedImage_rescale_def
      Let_def)

lemma image_allocation_failure:
  "IReadBlock (good_session\<lparr> alloc_image_ok := False \<rparr>) 1 0 opened_gray8 =
     Returns CE_Failure (opened_gray8\<lparr> m_bDecodingFailed := True \<rparr>)"
  by (simp add: opened_gray8_def good_session_def IReadBlock_def GetDecodedImage_def
      GDALGetDataTypeSizeBytes_def SIZE_MAX_def Let_def)

text \<open>
  Claim C5.  Once a full-image decode attempt has failed, every later pixel-access request
  is to fail at once, with the decoder left alone.  The code departs from this when the
  attempt fails in the allocation of an extra-channel buffer: \<^verbatim>\<open>GetDecodedImage()\<close> sets
  the marker and returns \<^verbatim>\<open>m_abyImage\<close>, which it has resized just before, without
  clearing it.  The block read that caused the attempt and the block reads that follow
  return \<^verbatim>\<open>CE_None\<close>, serving the zero samples of that buffer; the decoder is not called,
  the marker stays set, and a whole-image read, which tests the marker, fails.
\<close>

theorem extra_channel_allocation_failure_served:
  "serve_all [(extra_alloc_failure_session, Block_read 1 0),
              (good_session, Block_read 1 0),
              (good_session, Block_read 1 0),
              (good_session, Dataset_read whole_gray8_request (ByteSamples [0]))]
     opened_gray8_extra =
   Some ([CE_None, CE_None, CE_None, CE_Failure],
         opened_gray8_extra\<lparr> m_bDecodingFailed := True, m_abyImage := ByteSamples [0],
           m_abyExtraChannels := [ByteSamples []] \<rparr>)"
  by (simp add: opened_gray8_extra_def extra_alloc_failure_session_def opened_gray8_def
      good_session_def whole_gray8_request_def IReadBlock_def IRasterIO_def GetDecodedImage_def
      first_failing_alloc_def whole_image_def GDALGetDataTypeSizeBytes_def SIZE_MAX_def Let_def)

text \<open>
  Two more paths on which a failure is not followed by failing requests.  When
  \<^verbatim>\<open>JxlDecoderSubscribeEvents\<close> fails, \<^verbatim>\<open>GetDecodedImage(void *, size_t)\<close> returns without
  setting the marker: the direct whole-image read and the block read return \<^verbatim>\<open>CE_None\<close>.
  When a direct whole-image read fails in the decoder after a block read has cached the
  image, the marker is set and the cached image is kept: the next block read returns
  \<^verbatim>\<open>CE_None\<close>.
\<close>

lemma subscription_failure_not_recorded:
  "IRasterIO no_subscription_session whole_gray8_request (ByteSamples [0]) opened_gray8 =
     Returns CE_None (opened_gray8\<lparr> engine_calls := 1 \<rparr>) \<and>
   IReadBlock no_subscription_session 1 0 opened_gray8 =
     Returns CE_None (opened_gray8\<lparr> m_abyImage := ByteSamples [0], engine_calls := 1 \<rparr>)"
  by (simp add: opened_gray8_def no_subscription_session_def good_session_def
      whole_gray8_request_def IReadBlock_def IRasterIO_def GetDecodedImage_def
      GetDecodedImage_into_def first_failing_alloc_def whole_image_def AreSequentialBands_def
      bIsPixelInterleaveBuffer_def GDALGetDataTypeSizeBytes_def SIZE_MAX_def buffer_bytes_def
      Let_def)

lemma cached_image_served_after_direct_failure:
  "map_option fst
     (serve_all [(good_session, Block_read 1 0),
                 (error_session, Dataset_read whole_gray8_request (ByteSamples [0])),
                 (good_session, Block_read 1 0)]
        opened_gray8) = Some [CE_None, CE_Failure, CE_None] \<and>
   map_option (m_bDecodingFailed \<circ> snd)
     (serve_all [(good_session, Block_read 1 0),
                 (error_session, Dataset_read whole_gray8_request (ByteSamples [0]))]
        opened_gray8) = Some True"
  by (simp add: opened_gray8_def good_session_def error_session_def whole_gray8_request_def
      IReadBlock_def IRasterIO_def GetDecodedImage_def GetDecodedImage_into_def
      counted_round_def first_failing_alloc_def whole_image_def AreSequentialBands_def
      bIsPixelInterleaveBuffer_def GDALGetDataTypeSizeBytes_def SIZE_MAX_def buffer_bytes_def
      extra_channel_buffers_ok_def GetDecodedImage_rescale_def no_release_def Let_def)

end
